theory Spec2Isabelle
  imports Main "HOL-Library.Sublist" "HOL-Library.AList"
begin

section \<open>Strings as the Go code uses them\<close>

text \<open>
  Go strings are byte sequences; they are modelled as \<open>string\<close> (a list of 8-bit
  characters). The helpers below are the parts of the Go standard library that the
  builders call: \<open>strings.Join\<close>, \<open>strconv.Itoa\<close> (also the \<open>%v\<close> and \<open>%d\<close> verbs
  of \<open>fmt\<close> on an \<open>int\<close>), \<open>path.Clean\<close>, \<open>path.Join\<close> and \<open>filepath.Dir\<close>
  (on a Unix host, where the separator is \<open>/\<close> and there is no volume name).
\<close>

fun join :: "string \<Rightarrow> string list \<Rightarrow> string" where
  "join sep [] = []"
| "join sep [x] = x"
| "join sep (x # y # ys) = x @ sep @ join sep (y # ys)"

definition digit_char :: "int \<Rightarrow> char" where
  "digit_char d = char_of (48 + d)"

function digits :: "int \<Rightarrow> string" where
  "digits n = (if n < 10 then [digit_char n] else digits (n div 10) @ [digit_char (n mod 10)])"
  by pat_completeness auto
termination
  by (relation "measure nat") auto

declare digits.simps [simp del]

definition Itoa :: "int \<Rightarrow> string" where
  "Itoa i = (if i < 0 then CHR ''-'' # digits (- i) else digits i)"

primrec splitc :: "char \<Rightarrow> string \<Rightarrow> string list" where
  "splitc c [] = [[]]"
| "splitc c (x # xs) =
     (if x = c then [] # splitc c xs
      else (case splitc c xs of [] \<Rightarrow> [[x]] | w # ws \<Rightarrow> (x # w) # ws))"

text \<open>
  \<open>path.Clean\<close>: the path is processed element by element. Empty elements and \<open>.\<close>
  are dropped; \<open>..\<close> removes the element before it when there is one that is not itself
  \<open>..\<close>, is dropped at the root of a rooted path, and is kept otherwise. The stack
  \<open>out\<close> holds the kept elements, last one first. An empty result is \<open>.\<close>.
\<close>

definition clean_step :: "bool \<Rightarrow> string list \<Rightarrow> string \<Rightarrow> string list" where
  "clean_step rooted out el =
     (if el = [] \<or> el = ''.'' then out
      else if el = ''..'' then
        (case out of
           [] \<Rightarrow> if rooted then [] else [''..'']
         | t # ts \<Rightarrow> if t = ''..'' then ''..'' # out else ts)
      else el # out)"

definition Clean :: "string \<Rightarrow> string" where
  "Clean p =
     (if p = [] then ''.''
      else
        let rooted = (hd p = CHR ''/'');
            body = join ''/'' (rev (foldl (clean_step rooted) [] (splitc CHR ''/'' p)))
        in if rooted then CHR ''/'' # body
           else if body = [] then ''.'' else body)"

text \<open>\<open>path.Join\<close>: leading empty elements are ignored, the rest is joined by \<open>/\<close>
  and cleaned; the result is empty when every element is.\<close>

definition path_Join :: "string list \<Rightarrow> string" where
  "path_Join elem =
     (case dropWhile (\<lambda>e. e = []) elem of
        [] \<Rightarrow> []
      | rest \<Rightarrow> Clean (join ''/'' rest))"

text \<open>\<open>filepath.Dir\<close>: everything up to and including the last separator, cleaned.\<close>

definition filepath_Dir :: "string \<Rightarrow> string" where
  "filepath_Dir p = Clean (rev (dropWhile (\<lambda>c. c \<noteq> CHR ''/'') (rev p)))"


section \<open>The Volume Claim Allocator\<close>

subsection \<open>Claims and device sets\<close>

text \<open>
  A \<open>map[string]string\<close> of labels or annotations is an association list read with
  \<open>map_of\<close> and written with \<open>AList.update\<close>, so that claim objects can be compared
  and evaluated. The claim spec is opaque to the allocator, which only copies it.
\<close>

record PVCSpec =
  storageClassName :: string
  storageRequest :: nat

record PersistentVolumeClaim =
  pvcName :: string
  pvcGenerateName :: string
  pvcLabels :: "(string \<times> string) list"
  pvcAnnotations :: "(string \<times> string) list"
  pvcSpec :: PVCSpec

record StorageClassDeviceSet =
  dsName :: string
  dsCount :: int
  VolumeClaimTemplates :: "PersistentVolumeClaim list"

datatype error =
    EmptyVolumes
  | NoPVCAvailable string
  | FailedToCreatePVC string string string
  | MoreThanOnePVCs string "PersistentVolumeClaim list"

definition is_AmbiguousState :: "error \<Rightarrow> bool" where
  "is_AmbiguousState e = (case e of MoreThanOnePVCs _ _ \<Rightarrow> True | _ \<Rightarrow> False)"

definition pvcIdLabelKey :: string where
  "pvcIdLabelKey = ''ceph.rook.io/StorageClassDeviceSetPVCId''"

definition makeStorageClassDeviceSetPVCID :: "string \<Rightarrow> int \<Rightarrow> int \<Rightarrow> string \<times> string" where
  "makeStorageClassDeviceSetPVCID storageClassDeviceSetName setIndex pvcIndex =
     (let pvcStorageClassDeviceSetPVCId =
            storageClassDeviceSetName @ ''-'' @ Itoa setIndex @ ''-'' @ Itoa pvcIndex
      in (pvcStorageClassDeviceSetPVCId,
          ''ceph.rook.io/StorageClassDeviceSetPVCId='' @ pvcStorageClassDeviceSetPVCId))"

definition makeStorageClassDeviceSetPVCLabel ::
  "string \<Rightarrow> string \<Rightarrow> int \<Rightarrow> int \<Rightarrow> (string \<times> string) list" where
  "makeStorageClassDeviceSetPVCLabel storageClassDeviceSetName pvcStorageClassDeviceSetPVCId pvcIndex setIndex =
     [(''ceph.rook.io/storageClassDeviceSet'', storageClassDeviceSetName),
      (''ceph.rook.io/pvcIndex'', Itoa pvcIndex),
      (''ceph.rook.io/setIndex'', Itoa setIndex),
      (''ceph.rook.io/StorageClassDeviceSetPVCId'', pvcStorageClassDeviceSetPVCId)]"

text \<open>The loop \<open>for k, v := range pvcTemplate.GetLabels() { pvcLabels[k] = v }\<close>:
  every label of the template is written over the identity labels.\<close>

definition mergeLabels :: "(string \<times> string) list \<Rightarrow> (string \<times> string) list \<Rightarrow> (string \<times> string) list" where
  "mergeLabels labels templateLabels = foldl (\<lambda>acc (k, v). AList.update k v acc) labels templateLabels"

definition makeStorageClassDeviceSetPVC ::
  "string \<Rightarrow> string \<Rightarrow> int \<Rightarrow> int \<Rightarrow> PersistentVolumeClaim \<Rightarrow> PersistentVolumeClaim" where
  "makeStorageClassDeviceSetPVC storageClassDeviceSetName pvcStorageClassDeviceSetPVCId pvcIndex setIndex pvcTemplate =
     (let labels = makeStorageClassDeviceSetPVCLabel storageClassDeviceSetName pvcStorageClassDeviceSetPVCId pvcIndex setIndex;
          generateName = pvcStorageClassDeviceSetPVCId @ ''-'';
          generateName' =
            (if length (pvcName pvcTemplate) \<noteq> 0 then generateName @ pvcName pvcTemplate @ ''-''
             else generateName)
      in \<lparr> pvcName = [],
           pvcGenerateName = generateName',
           pvcLabels = mergeLabels labels (pvcLabels pvcTemplate),
           pvcAnnotations = pvcAnnotations pvcTemplate,
           pvcSpec = pvcSpec pvcTemplate \<rparr>)"

subsection \<open>The backing store\<close>

text \<open>
  The claims of the cluster's namespace live in the orchestration platform, outside the
  repository; the allocator reaches them through two calls, \<open>List\<close> with a label
  selector and \<open>Create\<close>. The store is modelled by its state: the claims it holds, the
  error (if any) with which it answers a list or a create request, the serial number
  from which it completes a generated name, and the log of the requests it has received.
  A selector \<open>key=value\<close> selects the claims whose label \<open>key\<close> is \<open>value\<close>.
\<close>

datatype apiCall = is_ListCall: ListCall string | is_CreateCall: CreateCall PersistentVolumeClaim

record store =
  items :: "PersistentVolumeClaim list"
  listErr :: "string option"
  createErr :: "string option"
  nameSerial :: nat
  calls :: "apiCall list"

definition parseSelector :: "string \<Rightarrow> string \<times> string" where
  "parseSelector sel =
     (takeWhile (\<lambda>c. c \<noteq> CHR ''='') sel, drop 1 (dropWhile (\<lambda>c. c \<noteq> CHR ''='') sel))"

definition matchesSelector :: "string \<Rightarrow> PersistentVolumeClaim \<Rightarrow> bool" where
  "matchesSelector sel p = (case parseSelector sel of (k, v) \<Rightarrow> map_of (pvcLabels p) k = Some v)"

definition storeList :: "store \<Rightarrow> string \<Rightarrow> (string + PersistentVolumeClaim list) \<times> store" where
  "storeList s sel =
     (let s1 = s\<lparr>calls := calls s @ [ListCall sel]\<rparr>
      in case listErr s of
           Some e \<Rightarrow> (Inl e, s1)
         | None \<Rightarrow> (Inr (filter (matchesSelector sel) (items s)), s1))"

definition storeCreate :: "store \<Rightarrow> PersistentVolumeClaim \<Rightarrow> (string + PersistentVolumeClaim) \<times> store" where
  "storeCreate s p =
     (let s1 = s\<lparr>calls := calls s @ [CreateCall p]\<rparr>
      in case createErr s of
           Some e \<Rightarrow> (Inl e, s1)
         | None \<Rightarrow>
             let deployed =
                   (if pvcName p = [] then p\<lparr>pvcName := pvcGenerateName p @ Itoa (int (nameSerial s))\<rparr>
                    else p)
             in (Inr deployed, s1\<lparr>items := items s @ [deployed], nameSerial := Suc (nameSerial s)\<rparr>))"

subsection \<open>createStorageClassDeviceSetPVC\<close>

definition createStorageClassDeviceSetPVC ::
  "store \<Rightarrow> StorageClassDeviceSet \<Rightarrow> int \<Rightarrow> (error + PersistentVolumeClaim) \<times> store" where
  "createStorageClassDeviceSetPVC s storageClassDeviceSet setIndex =
     (case VolumeClaimTemplates storageClassDeviceSet of
        [] \<Rightarrow> (Inl (NoPVCAvailable (dsName storageClassDeviceSet)), s)
      | template0 # _ \<Rightarrow>
          (case makeStorageClassDeviceSetPVCID (dsName storageClassDeviceSet) setIndex 0 of
             (pvcId, pvcIdLabelSelector) \<Rightarrow>
               let pvc = makeStorageClassDeviceSetPVC (dsName storageClassDeviceSet) pvcId 0 setIndex template0
               in (case storeList s pvcIdLabelSelector of
                     (Inl err, s1) \<Rightarrow>
                       (Inl (FailedToCreatePVC (pvcGenerateName pvc) (dsName storageClassDeviceSet) err), s1)
                   | (Inr presentPVCs, s1) \<Rightarrow>
                       if length presentPVCs = 0 then
                         (case storeCreate s1 pvc of
                            (Inl err, s2) \<Rightarrow>
                              (Inl (FailedToCreatePVC (pvcGenerateName pvc) (dsName storageClassDeviceSet) err), s2)
                          | (Inr deployedPVC, s2) \<Rightarrow> (Inr deployedPVC, s2))
                       else if length presentPVCs = 1 then (Inr (hd presentPVCs), s1)
                       else (Inl (MoreThanOnePVCs pvcIdLabelSelector presentPVCs), s1))))"


subsection \<open>The Claim Identity\<close>

text \<open>
  The allocator always asks for template index 0. Its Claim Identity and label selector
  for a device set and a set index are the two results of
  \<open>makeStorageClassDeviceSetPVCID\<close>; a claim carries the identity when its label
  \<open>ceph.rook.io/StorageClassDeviceSetPVCId\<close> has that value.
\<close>

definition claimIdentity :: "StorageClassDeviceSet \<Rightarrow> int \<Rightarrow> string" where
  "claimIdentity ds setIndex = fst (makeStorageClassDeviceSetPVCID (dsName ds) setIndex 0)"

definition claimSelector :: "StorageClassDeviceSet \<Rightarrow> int \<Rightarrow> string" where
  "claimSelector ds setIndex = snd (makeStorageClassDeviceSetPVCID (dsName ds) setIndex 0)"

definition carriesClaimIdentity :: "string \<Rightarrow> PersistentVolumeClaim \<Rightarrow> bool" where
  "carriesClaimIdentity pvcId p = (map_of (pvcLabels p) pvcIdLabelKey = Some pvcId)"

text \<open>
  The labels of the template are written over the identity labels. A template keeps the
  identity when every label it has under the identity key has the identity as its value
  (in particular when it has none).
\<close>

definition identityLabelValues :: "PersistentVolumeClaim \<Rightarrow> string list" where
  "identityLabelValues t = map snd (filter (\<lambda>kv. fst kv = pvcIdLabelKey) (pvcLabels t))"

definition templateKeepsIdentity :: "string \<Rightarrow> PersistentVolumeClaim \<Rightarrow> bool" where
  "templateKeepsIdentity pvcId t = list_all (\<lambda>v. v = pvcId) (identityLabelValues t)"

subsection \<open>Example device sets and stores\<close>

definition ex_template :: PersistentVolumeClaim where
  "ex_template =
     \<lparr> pvcName = ''data'', pvcGenerateName = [], pvcLabels = [(''tier'', ''fast'')],
       pvcAnnotations = [], pvcSpec = \<lparr> storageClassName = ''gp2'', storageRequest = 10 \<rparr> \<rparr>"

definition ex_walTemplate :: PersistentVolumeClaim where
  "ex_walTemplate =
     \<lparr> pvcName = ''wal'', pvcGenerateName = [], pvcLabels = [],
       pvcAnnotations = [], pvcSpec = \<lparr> storageClassName = ''io1'', storageRequest = 1 \<rparr> \<rparr>"

definition ex_deviceSet :: StorageClassDeviceSet where
  "ex_deviceSet = \<lparr> dsName = ''set1'', dsCount = 3, VolumeClaimTemplates = [ex_template] \<rparr>"

definition ex_twoTemplateSet :: StorageClassDeviceSet where
  "ex_twoTemplateSet =
     \<lparr> dsName = ''set1'', dsCount = 3, VolumeClaimTemplates = [ex_template, ex_walTemplate] \<rparr>"

definition ex_noTemplateSet :: StorageClassDeviceSet where
  "ex_noTemplateSet = \<lparr> dsName = ''set1'', dsCount = 3, VolumeClaimTemplates = [] \<rparr>"

definition ex_overridingTemplate :: PersistentVolumeClaim where
  "ex_overridingTemplate =
     ex_template\<lparr> pvcLabels := [(''ceph.rook.io/StorageClassDeviceSetPVCId'', ''mine'')] \<rparr>"

definition ex_overridingSet :: StorageClassDeviceSet where
  "ex_overridingSet =
     \<lparr> dsName = ''set1'', dsCount = 3, VolumeClaimTemplates = [ex_overridingTemplate] \<rparr>"

definition ex_claim :: "string \<Rightarrow> PersistentVolumeClaim" where
  "ex_claim name =
     \<lparr> pvcName = name, pvcGenerateName = ''set1-0-0-data-'',
       pvcLabels =
         [(''ceph.rook.io/storageClassDeviceSet'', ''set1''),
          (''ceph.rook.io/pvcIndex'', ''0''),
          (''ceph.rook.io/setIndex'', ''0''),
          (''ceph.rook.io/StorageClassDeviceSetPVCId'', ''set1-0-0''),
          (''tier'', ''fast'')],
       pvcAnnotations = [],
       pvcSpec = \<lparr> storageClassName = ''gp2'', storageRequest = 10 \<rparr> \<rparr>"

definition ex_emptyStore :: store where
  "ex_emptyStore = \<lparr> items = [], listErr = None, createErr = None, nameSerial = 0, calls = [] \<rparr>"

definition ex_storeAfterFirstCall :: store where
  "ex_storeAfterFirstCall =
     \<lparr> items = [ex_claim ''set1-0-0-data-0''], listErr = None, createErr = None, nameSerial = 1,
       calls = [ListCall ''ceph.rook.io/StorageClassDeviceSetPVCId=set1-0-0'',
                CreateCall (ex_claim [])] \<rparr>"

definition ex_twoClaimStore :: store where
  "ex_twoClaimStore =
     \<lparr> items = [ex_claim ''set1-0-0-data-0'', ex_claim ''set1-0-0-data-1''],
       listErr = None, createErr = None, nameSerial = 2, calls = [] \<rparr>"


section \<open>The Manifest Builder\<close>

subsection \<open>Workload records\<close>

text \<open>
  The records of the orchestration platform, with the fields the builders fill in.
  Pointer fields that may be left unset are options. Object metadata (names, labels,
  annotations, owner references), affinity, tolerations, the node selector and the
  container lifecycle hook are written by helpers outside this excerpt from constants
  that are not part of it; they are left out of the records.
\<close>

datatype VolumeSource =
    HostPath string
  | EmptyDir string
  | PersistentVolumeClaimSource string bool
  | OtherVolumeSource string

record Volume =
  volName :: string
  volSource :: VolumeSource

record VolumeMount =
  vmName :: string
  vmMountPath :: string

datatype EnvVarSource = SecretKeyRef string string | OtherEnvVarSource string

record EnvVar =
  envName :: string
  envValue :: string
  envValueFrom :: "EnvVarSource option"

record SecurityContext =
  Privileged :: "bool option"
  RunAsUser :: "int option"
  RunAsNonRoot :: "bool option"
  ReadOnlyRootFilesystem :: "bool option"

text \<open>Of a resource requirement only the memory limit is read, as a number of bytes
  (\<open>Limits.Memory().Value()\<close>); it is zero (\<open>IsZero\<close>) when no limit is set.\<close>

record ResourceRequirements =
  LimitsMemory :: int

record Container =
  cName :: string
  cImage :: string
  cCommand :: "string list"
  cArgs :: "string list"
  cEnv :: "EnvVar list"
  cVolumeMounts :: "VolumeMount list"
  cVolumeDevices :: "(string \<times> string) list"
  cSecurityContext :: "SecurityContext option"
  cResources :: ResourceRequirements

datatype RestartPolicy = RestartPolicyAlways | RestartPolicyOnFailure | RestartPolicyNever

datatype DNSPolicy = DNSPolicyUnset | DNSClusterFirst | DNSClusterFirstWithHostNet

record PodSpec =
  InitContainers :: "Container list"
  Containers :: "Container list"
  Volumes :: "Volume list"
  PodRestartPolicy :: RestartPolicy
  PodHostNetwork :: bool
  HostPID :: bool
  HostIPC :: bool
  PodDNSPolicy :: DNSPolicy

record Deployment =
  Replicas :: int
  Recreate :: bool
  Template :: PodSpec

subsection \<open>Inputs\<close>

record CephVersion =
  Major :: int
  Minor :: int
  Extra :: int

record Cluster =
  Namespace :: string
  dataDirHostPath :: string
  HostNetwork :: bool
  cephVersionImage :: string
  rookVersion :: string
  clusterCephVersion :: CephVersion
  clusterResources :: ResourceRequirements
  ownerRefUID :: string

record Device =
  devName :: string
  devConfig :: "(string \<times> string) list"

record Selection =
  DeviceFilter :: string
  UseAllDevices :: bool
  Directories :: "string list"

record StoreConfig =
  StoreType :: string
  DatabaseSizeMB :: int
  WalSizeMB :: int
  JournalSizeMB :: int
  OSDsPerDevice :: int
  EncryptedDevice :: bool

record PersistentVolumeClaimVolumeSource =
  ClaimName :: string
  ReadOnly :: bool

record OSDObject =
  name :: string
  devices :: "Device list"
  selection :: Selection
  metadataDevice :: string
  pvc :: PersistentVolumeClaimVolumeSource
  storeConfig :: StoreConfig
  location :: string
  resources :: ResourceRequirements

record OSDInfo =
  ID :: int
  UUID :: string
  IsFileStore :: bool
  IsDirectory :: bool
  DataPath :: string
  Config :: string
  KeyringPath :: string
  osdCluster :: string
  Journal :: string
  DevicePartUUID :: string
  CephVolumeInitiated :: bool

subsection \<open>What the builders take from outside the excerpt\<close>

text \<open>
  The builders call helpers and read constants of packages that are not part of the
  excerpt (\<open>k8sutil\<close>, \<open>opspec\<close>, \<open>opmon\<close>, \<open>config\<close>, \<open>version\<close>,
  \<open>rookalpha\<close>), read one variable of the process environment and format a
  \<open>float32\<close>. All of these are parameters of the model, collected in one record:
  the constants \<open>k8sutil.DataDir\<close>, \<open>k8sutil.BinariesMountPath\<close>,
  \<open>config.Bluestore\<close>, \<open>config.Filestore\<close>, \<open>config.OSDsPerDeviceKey\<close>,
  \<open>config.MetadataDeviceKey\<close> and \<open>opspec.ConfigInitContainerName\<close>; the release
  \<open>Nautilus\<close> from which \<open>IsAtLeastNautilus\<close> holds; the volumes, mounts,
  environment variables, image name and security context that helpers return;
  \<open>IsRemovingNode\<close>; \<open>os.Getenv\<close>; and \<open>fmtMemoryTarget\<close>, the \<open>%f\<close>
  rendering of \<open>float32(limit) * osdMemoryTargetSafetyFactor\<close> for a memory limit.
\<close>

record ext =
  DataDir :: string
  BinariesMountPath :: string
  Bluestore :: string
  Filestore :: string
  OSDsPerDeviceKey :: string
  MetadataDeviceKey :: string
  ConfigInitContainerName :: string
  Nautilus :: CephVersion
  PodVolumes :: "string \<Rightarrow> string \<Rightarrow> Volume list"
  CephVolumeMounts :: "VolumeMount list"
  RookVolumeMounts :: "VolumeMount list"
  PathToVolumeName :: "string \<Rightarrow> string"
  PrivateIPEnvVar :: EnvVar
  PublicIPEnvVar :: EnvVar
  ClusterDaemonEnvVars :: "string \<Rightarrow> EnvVar list"
  ClusterNameEnvVar :: "string \<Rightarrow> EnvVar"
  EndpointEnvVar :: EnvVar
  SecretEnvVar :: EnvVar
  AdminSecretEnvVar :: EnvVar
  ConfigDirEnvVar :: "string \<Rightarrow> EnvVar"
  ConfigOverrideEnvVar :: EnvVar
  LocationEnvVar :: "string \<Rightarrow> EnvVar"
  CephVersionFormatted :: "CephVersion \<Rightarrow> string"
  MakeRookImage :: "string \<Rightarrow> string"
  PodSecurityContext :: SecurityContext
  IsRemovingNode :: "string \<Rightarrow> bool"
  Getenv :: "string \<Rightarrow> string"
  fmtMemoryTarget :: "int \<Rightarrow> string"

text \<open>Modelled from the spec: the daemon version is a three-part ordered version for
  threshold comparisons; the comparison utility itself is outside the excerpt.
  \<open>IsAtLeast\<close> compares major, minor and extra in this order.\<close>

definition IsAtLeast :: "CephVersion \<Rightarrow> CephVersion \<Rightarrow> bool" where
  "IsAtLeast v other =
     (if Major v > Major other then True
      else if Major v = Major other \<and> Minor v > Minor other then True
      else if Major v = Major other \<and> Minor v = Minor other \<and> Extra v \<ge> Extra other then True
      else False)"

definition IsAtLeastNautilus :: "ext \<Rightarrow> CephVersion \<Rightarrow> bool" where
  "IsAtLeastNautilus x v = IsAtLeast v (Nautilus x)"

text \<open>Modelled from the spec: the "use all devices" flag of the selection is set.\<close>

definition GetUseAllDevices :: "Selection \<Rightarrow> bool" where
  "GetUseAllDevices sel = UseAllDevices sel"

subsection \<open>Constants and small helpers of the source\<close>

definition dataDirsEnvVarName :: string where "dataDirsEnvVarName = ''ROOK_DATA_DIRECTORIES''"
definition osdStoreEnvVarName :: string where "osdStoreEnvVarName = ''ROOK_OSD_STORE''"
definition osdDatabaseSizeEnvVarName :: string where "osdDatabaseSizeEnvVarName = ''ROOK_OSD_DATABASE_SIZE''"
definition osdWalSizeEnvVarName :: string where "osdWalSizeEnvVarName = ''ROOK_OSD_WAL_SIZE''"
definition osdJournalSizeEnvVarName :: string where "osdJournalSizeEnvVarName = ''ROOK_OSD_JOURNAL_SIZE''"
definition osdsPerDeviceEnvVarName :: string where "osdsPerDeviceEnvVarName = ''ROOK_OSDS_PER_DEVICE''"
definition encryptedDeviceEnvVarName :: string where "encryptedDeviceEnvVarName = ''ROOK_ENCRYPTED_DEVICE''"
definition osdMetadataDeviceEnvVarName :: string where "osdMetadataDeviceEnvVarName = ''ROOK_METADATA_DEVICE''"
definition pvcBackedOSDVarName :: string where "pvcBackedOSDVarName = ''ROOK_PVC_BACKED_OSD''"
definition rookBinariesMountPath :: string where "rookBinariesMountPath = ''/rook''"
definition rookBinariesVolumeName :: string where "rookBinariesVolumeName = ''rook-binaries''"

definition envVar :: "string \<Rightarrow> string \<Rightarrow> EnvVar" where
  "envVar n v = \<lparr> envName = n, envValue = v, envValueFrom = None \<rparr>"

definition nodeNameEnvVar :: "string \<Rightarrow> EnvVar" where
  "nodeNameEnvVar nm = envVar ''ROOK_NODE_NAME'' nm"

definition dataDevicesEnvVar :: "string \<Rightarrow> EnvVar" where
  "dataDevicesEnvVar dataDevices = envVar ''ROOK_DATA_DEVICES'' dataDevices"

definition deviceFilterEnvVar :: "string \<Rightarrow> EnvVar" where
  "deviceFilterEnvVar flt = envVar ''ROOK_DATA_DEVICE_FILTER'' flt"

definition metadataDeviceEnvVar :: "string \<Rightarrow> EnvVar" where
  "metadataDeviceEnvVar md = envVar osdMetadataDeviceEnvVarName md"

definition dataDirectoriesEnvVar :: "string \<Rightarrow> EnvVar" where
  "dataDirectoriesEnvVar dataDirectories = envVar dataDirsEnvVarName dataDirectories"

definition pvcBackedOSDEnvVar :: "string \<Rightarrow> EnvVar" where
  "pvcBackedOSDEnvVar pvcBacked = envVar pvcBackedOSDVarName pvcBacked"

definition skipVolumeForDirectory :: "ext \<Rightarrow> string \<Rightarrow> bool" where
  "skipVolumeForDirectory x path = (path = DataDir x)"

definition osdOnSDNFlag :: "bool \<Rightarrow> CephVersion \<Rightarrow> string list" where
  "osdOnSDNFlag hostnetwork v =
     (if \<not> hostnetwork then
        (if IsAtLeast v \<lparr> Major = 14, Minor = 2, Extra = 2 \<rparr>
         then [''--ms-learn-addr-from-peer=false''] else [])
      else [])"

definition noResources :: ResourceRequirements where
  "noResources = \<lparr> LimitsMemory = 0 \<rparr>"

definition getCopyBinariesContainer :: "ext \<Rightarrow> Cluster \<Rightarrow> Volume \<times> Container" where
  "getCopyBinariesContainer x c =
     (let volume = \<lparr> volName = rookBinariesVolumeName, volSource = EmptyDir [] \<rparr>;
          mount = \<lparr> vmName = rookBinariesVolumeName, vmMountPath = rookBinariesMountPath \<rparr>
      in (volume,
          \<lparr> cName = ''copy-bins'',
            cImage = MakeRookImage x (rookVersion c),
            cCommand = [],
            cArgs = [''copy-binaries'', ''--copy-to-dir'', rookBinariesMountPath],
            cEnv = [],
            cVolumeMounts = [mount],
            cVolumeDevices = [],
            cSecurityContext = None,
            cResources = noResources \<rparr>))"

definition getInitContainers :: "ext \<Rightarrow> Cluster \<Rightarrow> PersistentVolumeClaimVolumeSource \<Rightarrow> Container" where
  "getInitContainers x c claim =
     \<lparr> cName = ''blkdevmapper'',
       cImage = cephVersionImage c,
       cCommand = [],
       cArgs = [''cp'', ''-a'', ''/'' @ ClaimName claim, ''/mnt/'' @ ClaimName claim],
       cEnv = [],
       cVolumeMounts = [\<lparr> vmName = ClaimName claim @ ''-bridge'', vmMountPath = ''/mnt'' \<rparr>],
       cVolumeDevices = [(ClaimName claim, ''/'' @ ClaimName claim)],
       cSecurityContext = Some (PodSecurityContext x),
       cResources = noResources \<rparr>"

subsection \<open>getConfigEnvVars\<close>

definition getConfigEnvVars :: "ext \<Rightarrow> Cluster \<Rightarrow> StoreConfig \<Rightarrow> string \<Rightarrow> string \<Rightarrow> string \<Rightarrow> EnvVar list" where
  "getConfigEnvVars x c sc dataDir nodeName loc =
     (let envVars =
            [nodeNameEnvVar nodeName,
             envVar ''ROOK_CLUSTER_ID'' (ownerRefUID c),
             PrivateIPEnvVar x,
             PublicIPEnvVar x,
             ClusterNameEnvVar x (Namespace c),
             EndpointEnvVar x,
             SecretEnvVar x,
             AdminSecretEnvVar x,
             ConfigDirEnvVar x dataDir,
             ConfigOverrideEnvVar x,
             \<lparr> envName = ''ROOK_FSID'', envValue = [],
               envValueFrom = Some (SecretKeyRef ''rook-ceph-mon'' ''fsid'') \<rparr>];
          envVars = (if StoreType sc \<noteq> [] then envVars @ [envVar osdStoreEnvVarName (StoreType sc)] else envVars);
          envVars = (if DatabaseSizeMB sc \<noteq> 0 then envVars @ [envVar osdDatabaseSizeEnvVarName (Itoa (DatabaseSizeMB sc))] else envVars);
          envVars = (if WalSizeMB sc \<noteq> 0 then envVars @ [envVar osdWalSizeEnvVarName (Itoa (WalSizeMB sc))] else envVars);
          envVars = (if JournalSizeMB sc \<noteq> 0 then envVars @ [envVar osdJournalSizeEnvVarName (Itoa (JournalSizeMB sc))] else envVars);
          envVars = (if OSDsPerDevice sc \<noteq> 0 then envVars @ [envVar osdsPerDeviceEnvVarName (Itoa (OSDsPerDevice sc))] else envVars);
          envVars = (if EncryptedDevice sc then envVars @ [envVar encryptedDeviceEnvVarName ''true''] else envVars);
          envVars = (if loc \<noteq> [] then envVars @ [LocationEnvVar x loc] else envVars)
      in envVars)"


subsection \<open>provisionOSDContainer\<close>

text \<open>
  The body of the loop over the explicit device list. The statement
  \<open>if count, ok := device.Config[config.OSDsPerDeviceKey]; ok { logger.Infof(...) }\<close>
  declares a new \<open>count\<close> whose scope is the \<open>if\<close> statement and only logs it; the
  \<open>count\<close> that is appended to the suffix is the outer one, \<open>"1"\<close>. Log output is
  not part of the model.
\<close>

definition deviceEntry :: "ext \<Rightarrow> Device \<Rightarrow> string" where
  "deviceEntry x device =
     (let devSuffix = [];
          count = ''1'';
          devSuffix = devSuffix @ '':'' @ count;
          devSuffix =
            (case map_of (devConfig device) (MetadataDeviceKey x) of
               Some md \<Rightarrow> devSuffix @ '':'' @ md
             | None \<Rightarrow> devSuffix)
      in devName device @ devSuffix)"

text \<open>
  The function is modelled in the order of the source, in two parts and the function
  itself. \<open>provisionOSDContainer_selection\<close> is the start of the function: the
  environment and the \<open>devMountNeeded\<close> flag after the device list, the device
  filter, the use-all-devices flag and the metadata device have been looked at.
  \<open>provisionOSDContainer_mounts\<close> builds the volume mounts and extends the
  environment for a bound claim and for the directories.
\<close>

definition provisionOSDContainer_selection :: "ext \<Rightarrow> Cluster \<Rightarrow> OSDObject \<Rightarrow> EnvVar list \<times> bool" where
  "provisionOSDContainer_selection x c osdObject =
     (let envVars = getConfigEnvVars x c (storeConfig osdObject) (DataDir x) (name osdObject) (location osdObject);
          devMountNeeded = False;
          (envVars, devMountNeeded) =
            (if length (devices osdObject) > 0 then
               (envVars @ [dataDevicesEnvVar (join '','' (map (deviceEntry x) (devices osdObject)))], True)
             else if DeviceFilter (selection osdObject) \<noteq> [] then
               (envVars @ [deviceFilterEnvVar (DeviceFilter (selection osdObject))], True)
             else if GetUseAllDevices (selection osdObject) then
               (envVars @ [deviceFilterEnvVar ''all''], True)
             else (envVars, devMountNeeded));
          (envVars, devMountNeeded) =
            (if metadataDevice osdObject \<noteq> [] then
               (envVars @ [metadataDeviceEnvVar (metadataDevice osdObject)], True)
             else (envVars, devMountNeeded))
      in (envVars, devMountNeeded))"

definition provisionOSDContainer_mounts ::
  "ext \<Rightarrow> OSDObject \<Rightarrow> VolumeMount \<Rightarrow> bool \<Rightarrow> EnvVar list \<Rightarrow> VolumeMount list \<times> EnvVar list" where
  "provisionOSDContainer_mounts x osdObject copyBinariesMount devMountNeeded envVars =
     (let volumeMounts = CephVolumeMounts x @ [copyBinariesMount];
          volumeMounts =
            (if devMountNeeded then
               volumeMounts @ [\<lparr> vmName = ''devices'', vmMountPath = ''/dev'' \<rparr>,
                               \<lparr> vmName = ''udev'', vmMountPath = ''/run/udev'' \<rparr>]
             else volumeMounts);
          (volumeMounts, envVars) =
            (if ClaimName (pvc osdObject) \<noteq> [] then
               (volumeMounts @ [\<lparr> vmName = ClaimName (pvc osdObject) @ ''-bridge'', vmMountPath = ''/mnt'' \<rparr>],
                envVars @ [dataDevicesEnvVar (join '','' [''/mnt/'' @ ClaimName (pvc osdObject)]),
                           pvcBackedOSDEnvVar ''true''])
             else (volumeMounts, envVars));
          (volumeMounts, envVars) =
            (if length (Directories (selection osdObject)) > 0 then
               (let dirPaths = Directories (selection osdObject);
                    volumeMounts =
                      volumeMounts @
                      map (\<lambda>dpath. \<lparr> vmName = PathToVolumeName x dpath, vmMountPath = dpath \<rparr>)
                        (filter (\<lambda>dpath. \<not> skipVolumeForDirectory x dpath) dirPaths);
                    envVars =
                      (if \<not> IsRemovingNode x (DeviceFilter (selection osdObject)) then
                         envVars @ [dataDirectoriesEnvVar (join '','' dirPaths)]
                       else envVars)
                in (volumeMounts, envVars))
             else (volumeMounts, envVars))
      in (volumeMounts, envVars))"

definition provisionOSDContainer :: "ext \<Rightarrow> Cluster \<Rightarrow> OSDObject \<Rightarrow> VolumeMount \<Rightarrow> Container" where
  "provisionOSDContainer x c osdObject copyBinariesMount =
     (let (envVars, devMountNeeded) = provisionOSDContainer_selection x c osdObject;
          (volumeMounts, envVars) =
            provisionOSDContainer_mounts x osdObject copyBinariesMount devMountNeeded envVars;
          privileged =
            (if devMountNeeded \<or> Getenv x ''ROOK_HOSTPATH_REQUIRES_PRIVILEGED'' = ''true''
                \<or> ClaimName (pvc osdObject) \<noteq> []
             then True else False)
      in \<lparr> cName = ''provision'',
           cImage = cephVersionImage c,
           cCommand = [path_Join [rookBinariesMountPath, ''tini'']],
           cArgs = [''--'', path_Join [rookBinariesMountPath, ''rook''], ''ceph'', ''osd'', ''provision''],
           cEnv = envVars,
           cVolumeMounts = volumeMounts,
           cVolumeDevices = [],
           cSecurityContext =
             Some \<lparr> Privileged = Some privileged, RunAsUser = Some 0,
                    RunAsNonRoot = Some False, ReadOnlyRootFilesystem = Some False \<rparr>,
           cResources = resources osdObject \<rparr>)"

subsection \<open>provisionPodTemplateSpec\<close>

definition provisionPodTemplateSpec :: "ext \<Rightarrow> Cluster \<Rightarrow> OSDObject \<Rightarrow> RestartPolicy \<Rightarrow> error + PodSpec" where
  "provisionPodTemplateSpec x c osdObject restart =
     (let (copyBinariesVolume, copyBinariesContainer) = getCopyBinariesContainer x c;
          volumes = PodVolumes x (dataDirHostPath c) (Namespace c) @ [copyBinariesVolume];
          volumes =
            (if length (devices osdObject) > 0 \<or> DeviceFilter (selection osdObject) \<noteq> []
                \<or> GetUseAllDevices (selection osdObject) \<or> metadataDevice osdObject \<noteq> []
             then volumes @ [\<lparr> volName = ''devices'', volSource = HostPath ''/dev'' \<rparr>,
                             \<lparr> volName = ''udev'', volSource = HostPath ''/run/udev'' \<rparr>]
             else volumes);
          volumes =
            (if ClaimName (pvc osdObject) \<noteq> [] then
               volumes @ [\<lparr> volName = name osdObject,
                             volSource = PersistentVolumeClaimSource (ClaimName (pvc osdObject)) (ReadOnly (pvc osdObject)) \<rparr>,
                          \<lparr> volName = ClaimName (pvc osdObject) @ ''-bridge'', volSource = EmptyDir ''Memory'' \<rparr>]
             else volumes);
          volumes =
            volumes @
            map (\<lambda>d. \<lparr> volName = PathToVolumeName x d, volSource = HostPath d \<rparr>)
              (filter (\<lambda>d. \<not> skipVolumeForDirectory x d) (Directories (selection osdObject)))
      in if length volumes = 0 then Inl EmptyVolumes
         else
           Inr \<lparr> InitContainers = [],
                 Containers =
                   [copyBinariesContainer,
                    provisionOSDContainer x c osdObject (cVolumeMounts copyBinariesContainer ! 0)],
                 Volumes = volumes,
                 PodRestartPolicy = restart,
                 PodHostNetwork = HostNetwork c,
                 HostPID = False,
                 HostIPC = EncryptedDevice (storeConfig osdObject),
                 PodDNSPolicy = (if HostNetwork c then DNSClusterFirstWithHostNet else DNSPolicyUnset) \<rparr>)"

subsection \<open>makeDeployment\<close>

text \<open>
  The function is long; the model follows it in the order of the source, in four parts
  and the function itself. \<open>makeDeployment_volumes\<close> is the start of the function up
  to the volumes of a claim (the data directory, the volumes and the two lists of
  mounts); \<open>makeDeployment_envVars\<close> builds the environment of the daemon container
  and of the configuration container; \<open>makeDeployment_commonArgs\<close> builds
  \<open>commonArgs\<close>; \<open>makeDeployment_command\<close> is the choice of the command, which
  returns every variable it assigns.
\<close>

definition makeDeployment_volumes ::
  "ext \<Rightarrow> Cluster \<Rightarrow> OSDObject \<Rightarrow> OSDInfo \<Rightarrow> string \<times> Volume list \<times> VolumeMount list \<times> VolumeMount list" where
  "makeDeployment_volumes x c osdObject osd =
     (let volumeMounts = CephVolumeMounts x;
          configVolumeMounts = RookVolumeMounts x;
          volumes = PodVolumes x (dataDirHostPath c) (Namespace c);
          (dataDir, volumes, configVolumeMounts, volumeMounts) =
            (if IsDirectory osd then
               (let parentDir = filepath_Dir (DataPath osd)
                in if parentDir \<noteq> DataDir x then
                     (let volumeName = PathToVolumeName x parentDir
                      in (parentDir,
                          volumes @ [\<lparr> volName = volumeName, volSource = HostPath parentDir \<rparr>],
                          configVolumeMounts @ [\<lparr> vmName = volumeName, vmMountPath = parentDir \<rparr>],
                          volumeMounts @ [\<lparr> vmName = volumeName, vmMountPath = parentDir \<rparr>]))
                   else (parentDir, volumes, configVolumeMounts, volumeMounts))
             else
               (DataDir x,
                volumes @ [\<lparr> volName = ''devices'', volSource = HostPath ''/dev'' \<rparr>],
                configVolumeMounts,
                volumeMounts @ [\<lparr> vmName = ''devices'', vmMountPath = ''/dev'' \<rparr>]));
          volumes =
            (if ClaimName (pvc osdObject) \<noteq> [] then
               volumes @ [\<lparr> volName = name osdObject,
                             volSource = PersistentVolumeClaimSource (ClaimName (pvc osdObject)) (ReadOnly (pvc osdObject)) \<rparr>,
                          \<lparr> volName = ClaimName (pvc osdObject) @ ''-bridge'', volSource = EmptyDir ''Memory'' \<rparr>]
             else volumes)
      in (dataDir, volumes, configVolumeMounts, volumeMounts))"

definition makeDeployment_envVars ::
  "ext \<Rightarrow> Cluster \<Rightarrow> OSDObject \<Rightarrow> OSDInfo \<Rightarrow> string \<Rightarrow> EnvVar list \<times> EnvVar list" where
  "makeDeployment_envVars x c osdObject osd dataDir =
     (let storeType = (if IsFileStore osd then Filestore x else Bluestore x);
          osdID = Itoa (ID osd);
          tiniEnvVar = envVar ''TINI_SUBREAPER'' [];
          envVars =
            [nodeNameEnvVar (name osdObject), PrivateIPEnvVar x, PublicIPEnvVar x, tiniEnvVar]
            @ ClusterDaemonEnvVars x (cephVersionImage c)
            @ [envVar ''ROOK_OSD_UUID'' (UUID osd),
               envVar ''ROOK_OSD_ID'' osdID,
               envVar ''ROOK_OSD_STORE_TYPE'' storeType];
          configEnvVars =
            getConfigEnvVars x c (storeConfig osdObject) dataDir (name osdObject) (location osdObject)
            @ [tiniEnvVar,
               envVar ''ROOK_OSD_ID'' osdID,
               envVar ''ROOK_CEPH_VERSION'' (CephVersionFormatted x (clusterCephVersion c))];
          configEnvVars =
            (if \<not> IsDirectory osd then configEnvVars @ [envVar ''ROOK_IS_DEVICE'' ''true'']
             else configEnvVars)
      in (envVars, configEnvVars))"

definition makeDeployment_commonArgs :: "ext \<Rightarrow> Cluster \<Rightarrow> OSDInfo \<Rightarrow> string list" where
  "makeDeployment_commonArgs x c osd =
     (let osdID = Itoa (ID osd);
          commonArgs =
            [''--foreground'',
             ''--id'', osdID,
             ''--conf'', Config osd,
             ''--osd-data'', DataPath osd,
             ''--keyring'', KeyringPath osd,
             ''--cluster'', osdCluster osd,
             ''--osd-uuid'', UUID osd];
          commonArgs =
            (if \<not> IsFileStore osd then
               (if \<not> IsAtLeastNautilus x (clusterCephVersion c) \<and> \<not> LimitsMemory (clusterResources c) = 0
                then commonArgs @ [''--osd-memory-target='' @ fmtMemoryTarget x (LimitsMemory (clusterResources c))]
                else commonArgs)
             else commonArgs);
          commonArgs =
            (if IsFileStore osd then commonArgs @ [''--osd-journal='' @ Journal osd] else commonArgs);
          commonArgs =
            (if IsAtLeast (clusterCephVersion c) \<lparr> Major = 14, Minor = 2, Extra = 1 \<rparr>
             then commonArgs @ [''--default-log-to-file'', ''false''] else commonArgs);
          commonArgs = commonArgs @ osdOnSDNFlag (HostNetwork c) (clusterCephVersion c)
      in commonArgs)"

text \<open>
  In the branch for a worker that the volume-management tool initiated, the source
  builds \<open>args\<close> from a literal list and then appends the memory target to
  \<open>commonArgs\<close>, which is not read again.
\<close>

definition makeDeployment_command ::
  "ext \<Rightarrow> Cluster \<Rightarrow> OSDInfo \<Rightarrow> string list \<Rightarrow> Volume list \<Rightarrow> VolumeMount list
     \<Rightarrow> string list \<times> string list \<times> string list \<times> Volume list \<times> VolumeMount list" where
  "makeDeployment_command x c osd commonArgs volumes volumeMounts =
     (let osdID = Itoa (ID osd)
      in if \<not> IsDirectory osd \<and> IsFileStore osd \<and> \<not> CephVolumeInitiated osd then
           (let sourcePath = path_Join [''/dev/disk/by-partuuid'', DevicePartUUID osd];
                command = [path_Join [BinariesMountPath x, ''tini'']];
                args =
                  [''--'', path_Join [BinariesMountPath x, ''rook''],
                   ''ceph'', ''osd'', ''filestore-device'',
                   ''--source-path'', sourcePath,
                   ''--mount-path'', DataPath osd,
                   ''--''] @ commonArgs
            in (command, args, commonArgs, volumes, volumeMounts))
         else if CephVolumeInitiated osd then
           (let command = [path_Join [rookBinariesMountPath, ''tini'']];
                args =
                  [''--'', path_Join [rookBinariesMountPath, ''rook''],
                   ''ceph'', ''osd'', ''start'',
                   ''--'',
                   ''--foreground'',
                   ''--id'', osdID,
                   ''--osd-uuid'', UUID osd,
                   ''--conf'', Config osd,
                   ''--cluster'', ''ceph'',
                   ''--setuser'', ''ceph'',
                   ''--setgroup'', ''ceph'',
                   ''--setuser-match-path'', DataPath osd];
                commonArgs =
                  (if \<not> IsFileStore osd then
                     (if \<not> IsAtLeastNautilus x (clusterCephVersion c) \<and> \<not> LimitsMemory (clusterResources c) = 0
                      then commonArgs @ [''--osd-memory-target='' @ fmtMemoryTarget x (LimitsMemory (clusterResources c))]
                      else commonArgs)
                   else commonArgs);
                args =
                  (if IsAtLeast (clusterCephVersion c) \<lparr> Major = 14, Minor = 2, Extra = 1 \<rparr>
                   then args @ [''--default-log-to-file'', ''false''] else args);
                args = args @ osdOnSDNFlag (HostNetwork c) (clusterCephVersion c);
                volumes = volumes @ [\<lparr> volName = ''run-udev'', volSource = HostPath ''/run/udev'' \<rparr>];
                volumeMounts = volumeMounts @ [\<lparr> vmName = ''run-udev'', vmMountPath = ''/run/udev'' \<rparr>]
            in (command, args, commonArgs, volumes, volumeMounts))
         else
           (let command = [''ceph-osd''];
                args = commonArgs
            in (command, args, commonArgs, volumes, volumeMounts)))"

definition makeDeployment :: "ext \<Rightarrow> Cluster \<Rightarrow> OSDObject \<Rightarrow> OSDInfo \<Rightarrow> error + Deployment" where
  "makeDeployment x c osdObject osd =
     (let replicaCount = 1;
          (dataDir, volumes, configVolumeMounts, volumeMounts) = makeDeployment_volumes x c osdObject osd
      in if length volumes = 0 then Inl EmptyVolumes
         else
          (let osdID = Itoa (ID osd);
               (envVars, configEnvVars) = makeDeployment_envVars x c osdObject osd dataDir;
               commonArgs = makeDeployment_commonArgs x c osd;
               (copyBinariesVolume, copyBinariesContainer) = getCopyBinariesContainer x c;
               volumes = volumes @ [copyBinariesVolume];
               volumeMounts = volumeMounts @ [cVolumeMounts copyBinariesContainer ! 0];
               (command, args, commonArgs, volumes, volumeMounts) =
                 makeDeployment_command x c osd commonArgs volumes volumeMounts;
               (volumeMounts, envVars) =
                 (if ClaimName (pvc osdObject) \<noteq> [] then
                    (volumeMounts @ [\<lparr> vmName = ClaimName (pvc osdObject) @ ''-bridge'', vmMountPath = ''/mnt'' \<rparr>],
                     envVars @ [pvcBackedOSDEnvVar ''true''])
                  else (volumeMounts, envVars));
               privileged = True;
               securityContext =
                 \<lparr> Privileged = Some privileged, RunAsUser = Some 0,
                   RunAsNonRoot = None, ReadOnlyRootFilesystem = Some False \<rparr>;
               hostIPC = EncryptedDevice (storeConfig osdObject);
               dnsPolicy = (if HostNetwork c then DNSClusterFirstWithHostNet else DNSClusterFirst);
               initContainers =
                 [\<lparr> cName = ConfigInitContainerName x,
                    cImage = MakeRookImage x (rookVersion c),
                    cCommand = [],
                    cArgs = [''ceph'', ''osd'', ''init''],
                    cEnv = configEnvVars,
                    cVolumeMounts = configVolumeMounts,
                    cVolumeDevices = [],
                    cSecurityContext = Some securityContext,
                    cResources = noResources \<rparr>,
                  copyBinariesContainer];
               initContainers =
                 (if ClaimName (pvc osdObject) = [] then initContainers
                  else initContainers @ [getInitContainers x c (pvc osdObject)])
           in Inr \<lparr> Replicas = replicaCount,
                    Recreate = True,
                    Template =
                      \<lparr> InitContainers = initContainers,
                        Containers =
                          [\<lparr> cName = ''osd'',
                             cImage = cephVersionImage c,
                             cCommand = command,
                             cArgs = args,
                             cEnv = envVars,
                             cVolumeMounts = volumeMounts,
                             cVolumeDevices = [],
                             cSecurityContext = Some securityContext,
                             cResources = resources osdObject \<rparr>],
                        Volumes = volumes,
                        PodRestartPolicy = RestartPolicyAlways,
                        PodHostNetwork = HostNetwork c,
                        HostPID = True,
                        HostIPC = hostIPC,
                        PodDNSPolicy = dnsPolicy \<rparr> \<rparr>))"


subsection \<open>What the claims speak about\<close>

text \<open>
  The daemon container of a deployment is the only container of its pod template; the
  provisioning container is the second container of the provisioning pod template,
  after the one that copies the binaries. An argument list has a flag when one of its
  elements begins with the flag's text. A container requests privileged execution when
  its security context sets \<open>Privileged\<close> to true. The device mount is needed when
  the descriptor has an explicit device list, a device filter, the use-all-devices flag
  or a metadata device.
\<close>

definition daemonContainer :: "Deployment \<Rightarrow> Container" where
  "daemonContainer d = hd (Containers (Template d))"

definition provisionContainer :: "PodSpec \<Rightarrow> Container" where
  "provisionContainer p = Containers p ! 1"

definition hasFlag :: "string \<Rightarrow> string list \<Rightarrow> bool" where
  "hasFlag flag args = list_ex (prefix flag) args"

definition requestsPrivileged :: "Container \<Rightarrow> bool" where
  "requestsPrivileged ct =
     (case cSecurityContext ct of None \<Rightarrow> False | Some sc \<Rightarrow> Privileged sc = Some True)"

definition deviceMountNeeded :: "OSDObject \<Rightarrow> bool" where
  "deviceMountNeeded osdObject =
     (devices osdObject \<noteq> [] \<or> DeviceFilter (selection osdObject) \<noteq> []
      \<or> GetUseAllDevices (selection osdObject) \<or> metadataDevice osdObject \<noteq> [])"

definition hasName :: "string \<Rightarrow> EnvVar \<Rightarrow> bool" where
  "hasName n e = (envName e = n)"

definition envNamed :: "string \<Rightarrow> EnvVar list \<Rightarrow> EnvVar list" where
  "envNamed n env = filter (hasName n) env"

text \<open>The environment variables that \<open>getConfigEnvVars\<close> takes from helpers outside
  the excerpt.\<close>

definition helperEnvVars :: "ext \<Rightarrow> Cluster \<Rightarrow> string \<Rightarrow> string \<Rightarrow> EnvVar list" where
  "helperEnvVars x c dataDir loc =
     [PrivateIPEnvVar x, PublicIPEnvVar x, ClusterNameEnvVar x (Namespace c), EndpointEnvVar x,
      SecretEnvVar x, AdminSecretEnvVar x, ConfigDirEnvVar x dataDir, ConfigOverrideEnvVar x]
     @ (if loc \<noteq> [] then [LocationEnvVar x loc] else [])"

text \<open>The strings that \<open>makeDeployment\<close> copies into the argument list from the
  worker's runtime info, and the path of the helper binary.\<close>

definition argumentInputs :: "ext \<Rightarrow> OSDInfo \<Rightarrow> string list" where
  "argumentInputs x osd =
     [Config osd, DataPath osd, KeyringPath osd, osdCluster osd, UUID osd,
      path_Join [BinariesMountPath x, ''rook'']]"

text \<open>The entry of a device that has no per-device OSD count: the name, the count 1
  and, when configured, the metadata device.\<close>

definition deviceEntrySpec :: "ext \<Rightarrow> Device \<Rightarrow> string" where
  "deviceEntrySpec x device =
     devName device @ '':1'' @
     (case map_of (devConfig device) (MetadataDeviceKey x) of None \<Rightarrow> [] | Some md \<Rightarrow> '':'' @ md)"

subsection \<open>Example inputs\<close>

text \<open>An example of the outside parts, with the values of a usual installation; the
  rendering of the memory target stands for the \<open>float32\<close> product.\<close>

definition ex_ext :: ext where
  "ex_ext =
     \<lparr> DataDir = ''/var/lib/rook'',
       BinariesMountPath = ''/rook'',
       Bluestore = ''bluestore'',
       Filestore = ''filestore'',
       OSDsPerDeviceKey = ''osdsPerDevice'',
       MetadataDeviceKey = ''metadataDevice'',
       ConfigInitContainerName = ''config-init'',
       Nautilus = \<lparr> Major = 14, Minor = 0, Extra = 0 \<rparr>,
       PodVolumes = (\<lambda>dataDirHostPath ns.
         [\<lparr> volName = ''rook-data'',
            volSource = (if dataDirHostPath = [] then EmptyDir [] else HostPath dataDirHostPath) \<rparr>,
          \<lparr> volName = ''rook-config-override'', volSource = OtherVolumeSource ''configMap'' \<rparr>]),
       CephVolumeMounts = [\<lparr> vmName = ''rook-data'', vmMountPath = ''/var/lib/rook'' \<rparr>],
       RookVolumeMounts = [\<lparr> vmName = ''rook-data'', vmMountPath = ''/var/lib/rook'' \<rparr>],
       PathToVolumeName = map (\<lambda>ch. if ch = CHR ''/'' then CHR ''-'' else ch),
       PrivateIPEnvVar = \<lparr> envName = ''ROOK_PRIVATE_IP'', envValue = [], envValueFrom = Some (OtherEnvVarSource ''status.podIP'') \<rparr>,
       PublicIPEnvVar = \<lparr> envName = ''ROOK_PUBLIC_IP'', envValue = [], envValueFrom = Some (OtherEnvVarSource ''status.podIP'') \<rparr>,
       ClusterDaemonEnvVars = (\<lambda>image. [envVar ''CONTAINER_IMAGE'' image]),
       ClusterNameEnvVar = envVar ''ROOK_CLUSTER_NAME'',
       EndpointEnvVar = \<lparr> envName = ''ROOK_MON_ENDPOINTS'', envValue = [], envValueFrom = Some (OtherEnvVarSource ''rook-ceph-mon-endpoints'') \<rparr>,
       SecretEnvVar = \<lparr> envName = ''ROOK_MON_SECRET'', envValue = [], envValueFrom = Some (SecretKeyRef ''rook-ceph-mon'' ''mon-secret'') \<rparr>,
       AdminSecretEnvVar = \<lparr> envName = ''ROOK_ADMIN_SECRET'', envValue = [], envValueFrom = Some (SecretKeyRef ''rook-ceph-mon'' ''admin-secret'') \<rparr>,
       ConfigDirEnvVar = envVar ''ROOK_CONFIG_DIR'',
       ConfigOverrideEnvVar = envVar ''ROOK_CEPH_CONFIG_OVERRIDE'' ''/etc/rook/config/override.conf'',
       LocationEnvVar = envVar ''ROOK_LOCATION'',
       CephVersionFormatted = (\<lambda>v. Itoa (Major v) @ ''.'' @ Itoa (Minor v) @ ''.'' @ Itoa (Extra v)),
       MakeRookImage = (\<lambda>v. ''rook/ceph:'' @ v),
       PodSecurityContext =
         \<lparr> Privileged = Some True, RunAsUser = None, RunAsNonRoot = None, ReadOnlyRootFilesystem = None \<rparr>,
       IsRemovingNode = (\<lambda>flt. False),
       Getenv = (\<lambda>var. []),
       fmtMemoryTarget = (\<lambda>limit. Itoa (limit * 4 div 5) @ ''.000000'') \<rparr>"

definition ex_cluster :: Cluster where
  "ex_cluster =
     \<lparr> Namespace = ''rook-ceph'', dataDirHostPath = ''/var/lib/rook'', HostNetwork = False,
       cephVersionImage = ''ceph/ceph:v13.2.6'', rookVersion = ''v1.1.0'',
       clusterCephVersion = \<lparr> Major = 13, Minor = 2, Extra = 6 \<rparr>,
       clusterResources = \<lparr> LimitsMemory = 4294967296 \<rparr>,
       ownerRefUID = ''c0ffee'' \<rparr>"

definition ex_storeConfig :: StoreConfig where
  "ex_storeConfig =
     \<lparr> StoreType = [], DatabaseSizeMB = 0, WalSizeMB = 0, JournalSizeMB = 0, OSDsPerDevice = 0,
       EncryptedDevice = False \<rparr>"

definition ex_bareObject :: OSDObject where
  "ex_bareObject =
     \<lparr> name = ''node1'', devices = [],
       selection = \<lparr> DeviceFilter = [], UseAllDevices = False, Directories = [] \<rparr>,
       metadataDevice = [], pvc = \<lparr> ClaimName = [], ReadOnly = False \<rparr>,
       storeConfig = ex_storeConfig, location = [], resources = noResources \<rparr>"

definition ex_devicesObject :: OSDObject where
  "ex_devicesObject =
     ex_bareObject\<lparr> devices := [\<lparr> devName = ''sdb'', devConfig = [] \<rparr>,
                               \<lparr> devName = ''sdc'', devConfig = [] \<rparr>] \<rparr>"

definition ex_devicesPvcObject :: OSDObject where
  "ex_devicesPvcObject =
     ex_bareObject\<lparr> devices := [\<lparr> devName = ''sdb'', devConfig = [] \<rparr>],
                    pvc := \<lparr> ClaimName = ''set1-0-0-data-0'', ReadOnly = False \<rparr> \<rparr>"

definition ex_countedDevice :: Device where
  "ex_countedDevice = \<lparr> devName = ''sdb'', devConfig = [(''osdsPerDevice'', ''3'')] \<rparr>"

definition ex_osd :: OSDInfo where
  "ex_osd =
     \<lparr> ID = 0, UUID = ''6a1b'', IsFileStore = False, IsDirectory = False,
       DataPath = ''/var/lib/rook/osd0'', Config = ''/var/lib/rook/osd0/rook-ceph.config'',
       KeyringPath = ''/var/lib/rook/osd0/keyring'', osdCluster = ''rook-ceph'',
       Journal = ''/var/lib/rook/osd0/journal'', DevicePartUUID = ''9f3c'',
       CephVolumeInitiated = False \<rparr>"

definition ex_dirFilestoreOSD :: OSDInfo where
  "ex_dirFilestoreOSD = ex_osd\<lparr> IsFileStore := True, IsDirectory := True \<rparr>"

definition ex_deviceFilestoreOSD :: OSDInfo where
  "ex_deviceFilestoreOSD = ex_osd\<lparr> IsFileStore := True \<rparr>"

definition ex_cvBluestoreOSD :: OSDInfo where
  "ex_cvBluestoreOSD = ex_osd\<lparr> CephVolumeInitiated := True \<rparr>"

definition ex_cvFilestoreOSD :: OSDInfo where
  "ex_cvFilestoreOSD = ex_osd\<lparr> IsFileStore := True, CephVolumeInitiated := True \<rparr>"


section \<open>Properties of the Volume Claim Allocator\<close>

lemma Itoa_0: "Itoa 0 = ''0''"
  by code_simp

lemma parseSelector_claim:
  "parseSelector (claimSelector ds i) = (pvcIdLabelKey, claimIdentity ds i)"
  by (simp add: parseSelector_def claimSelector_def claimIdentity_def
        makeStorageClassDeviceSetPVCID_def pvcIdLabelKey_def Let_def)

lemma matchesSelector_claim:
  "matchesSelector (claimSelector ds i) = carriesClaimIdentity (claimIdentity ds i)"
  by (rule ext) (simp add: matchesSelector_def parseSelector_claim carriesClaimIdentity_def)

lemma makeID_split:
  "makeStorageClassDeviceSetPVCID (dsName ds) i 0 = (claimIdentity ds i, claimSelector ds i)"
  by (simp add: claimIdentity_def claimSelector_def)

lemma length1_hd: "length xs = Suc 0 \<Longrightarrow> xs = [hd xs]"
  by (cases xs) auto

lemmas ex_allocator_defs =
  ex_template_def ex_walTemplate_def ex_deviceSet_def ex_twoTemplateSet_def ex_noTemplateSet_def
  ex_claim_def ex_emptyStore_def ex_storeAfterFirstCall_def ex_twoClaimStore_def

lemmas allocator_defs =
  createStorageClassDeviceSetPVC_def makeStorageClassDeviceSetPVCID_def
  makeStorageClassDeviceSetPVC_def makeStorageClassDeviceSetPVCLabel_def mergeLabels_def
  storeList_def storeCreate_def matchesSelector_def parseSelector_def
  claimIdentity_def claimSelector_def carriesClaimIdentity_def pvcIdLabelKey_def Itoa_0

text \<open>
  A second call finds the claim that the first call returned, when that claim carries
  the identity label.
\<close>

lemma second_call_returns_claim:
  assumes "createStorageClassDeviceSetPVC s ds i = (Inr p, s')"
      and "carriesClaimIdentity (claimIdentity ds i) p"
  shows "createStorageClassDeviceSetPVC s' ds i =
           (Inr p, s'\<lparr>calls := calls s' @ [ListCall (claimSelector ds i)]\<rparr>)"
proof -
  obtain t ts where T: "VolumeClaimTemplates ds = t # ts"
    using assms(1)
    by (cases "VolumeClaimTemplates ds") (auto simp: createStorageClassDeviceSetPVC_def)
  have L: "listErr s = None"
    using assms(1) T
    by (cases "listErr s")
       (auto simp: createStorageClassDeviceSetPVC_def makeID_split storeList_def Let_def)
  have "filter (carriesClaimIdentity (claimIdentity ds i)) (items s') = [p] \<and> listErr s' = None"
  proof (cases "filter (carriesClaimIdentity (claimIdentity ds i)) (items s) = []")
    case True
    then show ?thesis
      using assms T L
      by (auto simp: createStorageClassDeviceSetPVC_def makeID_split storeList_def
            storeCreate_def Let_def matchesSelector_claim split: option.splits if_splits)
  next
    case False
    then show ?thesis
      using assms(1) T L
      by (auto simp: createStorageClassDeviceSetPVC_def makeID_split storeList_def Let_def
            matchesSelector_claim dest: length1_hd split: if_splits)
  qed
  then show ?thesis
    using T
    by (simp add: createStorageClassDeviceSetPVC_def makeID_split storeList_def Let_def
          matchesSelector_claim)
qed

lemma mergeLabels_keeps:
  assumes "map_of labels k = Some v"
      and "list_all (\<lambda>w. w = v) (map snd (filter (\<lambda>kv. fst kv = k) templateLabels))"
  shows "map_of (mergeLabels labels templateLabels) k = Some v"
  using assms unfolding mergeLabels_def
proof (induction templateLabels arbitrary: labels)
  case Nil
  then show ?case by simp
next
  case (Cons a tl)
  obtain k' v' where a: "a = (k', v')" by (cases a)
  have "map_of (AList.update k' v' labels) k = Some v"
    using Cons.prems by (auto simp: a update_conv' split: if_splits)
  moreover have "list_all (\<lambda>w. w = v) (map snd (filter (\<lambda>kv. fst kv = k) tl))"
    using Cons.prems(2) by (auto simp: a split: if_splits)
  ultimately show ?case
    using Cons.IH [of "AList.update k' v' labels"] by (simp add: a)
qed

lemma made_claim_carries:
  assumes "templateKeepsIdentity pvcId t"
  shows "carriesClaimIdentity pvcId (makeStorageClassDeviceSetPVC n pvcId pvcIndex setIndex t)"
  using assms
  by (simp add: carriesClaimIdentity_def makeStorageClassDeviceSetPVC_def Let_def
        templateKeepsIdentity_def identityLabelValues_def mergeLabels_keeps
        makeStorageClassDeviceSetPVCLabel_def pvcIdLabelKey_def)

lemma first_call_carries:
  assumes "createStorageClassDeviceSetPVC s ds i = (Inr p, s')"
      and "templateKeepsIdentity (claimIdentity ds i) (hd (VolumeClaimTemplates ds))"
  shows "carriesClaimIdentity (claimIdentity ds i) p"
proof -
  obtain t ts where T: "VolumeClaimTemplates ds = t # ts"
    using assms(1)
    by (cases "VolumeClaimTemplates ds") (auto simp: createStorageClassDeviceSetPVC_def)
  have K: "carriesClaimIdentity (claimIdentity ds i)
             (makeStorageClassDeviceSetPVC (dsName ds) (claimIdentity ds i) 0 i t)"
    using assms(2) T by (simp add: made_claim_carries)
  have M: "pvcName (makeStorageClassDeviceSetPVC (dsName ds) (claimIdentity ds i) 0 i t) = []"
    by (simp add: makeStorageClassDeviceSetPVC_def Let_def)
  show ?thesis
  proof (cases "filter (carriesClaimIdentity (claimIdentity ds i)) (items s) = []")
    case True
    then show ?thesis
      using assms(1) T K M
      by (auto simp: createStorageClassDeviceSetPVC_def makeID_split storeList_def
            storeCreate_def Let_def matchesSelector_claim carriesClaimIdentity_def
            split: option.splits if_splits)
  next
    case False
    then have "hd (filter (carriesClaimIdentity (claimIdentity ds i)) (items s))
                 \<in> set (filter (carriesClaimIdentity (claimIdentity ds i)) (items s))"
      by (rule hd_in_set)
    then have "carriesClaimIdentity (claimIdentity ds i)
                 (hd (filter (carriesClaimIdentity (claimIdentity ds i)) (items s)))"
      by simp
    then show ?thesis
      using assms(1) T False
      by (auto simp: createStorageClassDeviceSetPVC_def makeID_split storeList_def Let_def
            matchesSelector_claim split: option.splits if_splits)
  qed
qed

text \<open>
  Claim C4, as the spec states it, fails: the first template of the device set has a
  label under the identity key, which is written over the derived identity. The first
  call succeeds and creates a claim that does not carry the derived identity label; the
  second call finds no claim under the selector and creates a second claim.
\<close>

theorem C4_allocator_idempotent_counterexample:
  "\<not> isl (fst (createStorageClassDeviceSetPVC ex_emptyStore ex_overridingSet 0))
   \<and> map pvcName (items (snd (createStorageClassDeviceSetPVC ex_emptyStore ex_overridingSet 0))) =
       [''set1-0-0-data-0'']
   \<and> \<not> carriesClaimIdentity (claimIdentity ex_overridingSet 0)
         (projr (fst (createStorageClassDeviceSetPVC ex_emptyStore ex_overridingSet 0)))
   \<and> \<not> isl (fst (createStorageClassDeviceSetPVC
                   (snd (createStorageClassDeviceSetPVC ex_emptyStore ex_overridingSet 0)) ex_overridingSet 0))
   \<and> map pvcName (items (snd (createStorageClassDeviceSetPVC
                   (snd (createStorageClassDeviceSetPVC ex_emptyStore ex_overridingSet 0)) ex_overridingSet 0))) =
       [''set1-0-0-data-0'', ''set1-0-0-data-1'']
   \<and> fst (createStorageClassDeviceSetPVC
                   (snd (createStorageClassDeviceSetPVC ex_emptyStore ex_overridingSet 0)) ex_overridingSet 0)
       \<noteq> fst (createStorageClassDeviceSetPVC ex_emptyStore ex_overridingSet 0)"
  by code_simp

text \<open>
  Claim C4, amended. When the first volume claim template of the device set keeps the
  identity (it has no label under the identity key, or only with the derived identity
  as value), the allocator is idempotent: if a first call for a device set and a set
  index succeeded, the claim it returned carries the derived identity label, and a
  second call for the same device set and index, on the store the first call left,
  returns the same claim object and sends the store one list request and nothing else:
  no claim is created.
\<close>

theorem C4_allocator_idempotent:
  assumes "createStorageClassDeviceSetPVC s ds i = (Inr p, s')"
      and "templateKeepsIdentity (claimIdentity ds i) (hd (VolumeClaimTemplates ds))"
  shows "carriesClaimIdentity (claimIdentity ds i) p
       \<and> createStorageClassDeviceSetPVC s' ds i =
           (Inr p, s'\<lparr>calls := calls s' @ [ListCall (claimSelector ds i)]\<rparr>)"
  using first_call_carries [OF assms] second_call_returns_claim [OF assms(1)] by blast

theorem C4_allocator_idempotent_witness:
  "createStorageClassDeviceSetPVC ex_emptyStore ex_deviceSet 0 =
     (Inr (ex_claim ''set1-0-0-data-0''), ex_storeAfterFirstCall)
   \<and> templateKeepsIdentity (claimIdentity ex_deviceSet 0) (hd (VolumeClaimTemplates ex_deviceSet))
   \<and> carriesClaimIdentity (claimIdentity ex_deviceSet 0) (ex_claim ''set1-0-0-data-0'')
   \<and> createStorageClassDeviceSetPVC ex_storeAfterFirstCall ex_deviceSet 0 =
     (Inr (ex_claim ''set1-0-0-data-0''),
      ex_storeAfterFirstCall\<lparr>calls := calls ex_storeAfterFirstCall @
         [ListCall ''ceph.rook.io/StorageClassDeviceSetPVCId=set1-0-0'']\<rparr>)"
proof -
  have first: "createStorageClassDeviceSetPVC ex_emptyStore ex_deviceSet 0 =
     (Inr (ex_claim ''set1-0-0-data-0''), ex_storeAfterFirstCall)"
    by (simp add: allocator_defs ex_allocator_defs Let_def)
  have keeps: "templateKeepsIdentity (claimIdentity ex_deviceSet 0) (hd (VolumeClaimTemplates ex_deviceSet))"
    by code_simp
  have sel: "claimSelector ex_deviceSet 0 = ''ceph.rook.io/StorageClassDeviceSetPVCId=set1-0-0''"
    by (simp add: allocator_defs ex_allocator_defs Let_def)
  show ?thesis
    using C4_allocator_idempotent [OF first keeps] first keeps by (simp add: sel)
qed

text \<open>A list request that the store answers with an error is propagated, with the
  generated name and the device set.\<close>

lemma list_error_propagated:
  assumes "VolumeClaimTemplates ds \<noteq> []" and "listErr s = Some e"
  shows "\<exists>g. createStorageClassDeviceSetPVC s ds i =
           (Inl (FailedToCreatePVC g (dsName ds) e), s\<lparr>calls := calls s @ [ListCall (claimSelector ds i)]\<rparr>)"
  using assms
  by (cases "VolumeClaimTemplates ds")
     (auto simp: createStorageClassDeviceSetPVC_def makeID_split storeList_def Let_def)

text \<open>
  Claim C5, as the spec states it, fails: with no volume claim template the allocator
  returns the no-template error before it looks at the store, also when two claims there
  carry the identity label.
\<close>

theorem C5_ambiguous_state_counterexample:
  "2 \<le> length (filter (carriesClaimIdentity (claimIdentity ex_noTemplateSet 0)) (items ex_twoClaimStore))
   \<and> createStorageClassDeviceSetPVC ex_twoClaimStore ex_noTemplateSet 0 =
       (Inl (NoPVCAvailable ''set1''), ex_twoClaimStore)
   \<and> \<not> is_AmbiguousState (NoPVCAvailable ''set1'')"
  by (simp add: allocator_defs ex_allocator_defs is_AmbiguousState_def Let_def)

text \<open>
  Claim C5, amended. In every store state in which two or more claims carry the derived
  identity label, the allocator returns an error, returns none of the claims, leaves the
  claims of the store as they are and sends no create request. When the device set has
  at least one volume claim template and the store answers the list request, the error
  is the ambiguous-state error, with the selector and the claims found.
\<close>

theorem C5_ambiguous_state:
  assumes "2 \<le> length (filter (carriesClaimIdentity (claimIdentity ds i)) (items s))"
  shows "(\<exists>e. fst (createStorageClassDeviceSetPVC s ds i) = Inl e)
       \<and> items (snd (createStorageClassDeviceSetPVC s ds i)) = items s
       \<and> filter is_CreateCall (calls (snd (createStorageClassDeviceSetPVC s ds i))) =
           filter is_CreateCall (calls s)
       \<and> (VolumeClaimTemplates ds \<noteq> [] \<and> listErr s = None \<longrightarrow>
            fst (createStorageClassDeviceSetPVC s ds i) =
              Inl (MoreThanOnePVCs (claimSelector ds i)
                     (filter (carriesClaimIdentity (claimIdentity ds i)) (items s))))"
  using assms
  by (cases "VolumeClaimTemplates ds"; cases "listErr s")
     (auto simp: createStorageClassDeviceSetPVC_def makeID_split storeList_def Let_def
        matchesSelector_claim)

theorem C5_ambiguous_state_witness:
  "2 \<le> length (filter (carriesClaimIdentity (claimIdentity ex_deviceSet 0)) (items ex_twoClaimStore))
   \<and> VolumeClaimTemplates ex_deviceSet \<noteq> [] \<and> listErr ex_twoClaimStore = None
   \<and> fst (createStorageClassDeviceSetPVC ex_twoClaimStore ex_deviceSet 0) =
       Inl (MoreThanOnePVCs ''ceph.rook.io/StorageClassDeviceSetPVCId=set1-0-0''
              [ex_claim ''set1-0-0-data-0'', ex_claim ''set1-0-0-data-1''])
   \<and> items (snd (createStorageClassDeviceSetPVC ex_twoClaimStore ex_deviceSet 0)) =
       items ex_twoClaimStore"
proof -
  have two: "2 \<le> length (filter (carriesClaimIdentity (claimIdentity ex_deviceSet 0)) (items ex_twoClaimStore))"
    by (simp add: allocator_defs ex_allocator_defs Let_def)
  have found: "filter (carriesClaimIdentity (claimIdentity ex_deviceSet 0)) (items ex_twoClaimStore) =
      [ex_claim ''set1-0-0-data-0'', ex_claim ''set1-0-0-data-1'']"
    by (simp add: allocator_defs ex_allocator_defs Let_def)
  have sel: "claimSelector ex_deviceSet 0 = ''ceph.rook.io/StorageClassDeviceSetPVCId=set1-0-0''"
    by (simp add: allocator_defs ex_allocator_defs Let_def)
  have pre: "VolumeClaimTemplates ex_deviceSet \<noteq> [] \<and> listErr ex_twoClaimStore = None"
    by (simp add: ex_allocator_defs)
  show ?thesis
    using C5_ambiguous_state [OF two] two pre by (simp add: found sel)
qed



text \<open>
  Claim C10. A device set whose list of volume claim templates is empty makes the
  allocator return its error at once: the store is returned as it was, with no list and
  no create request added to its log, whatever it holds and however it would answer.
\<close>

theorem C10_empty_templates_no_store_call:
  assumes "VolumeClaimTemplates ds = []"
  shows "createStorageClassDeviceSetPVC s ds setIndex = (Inl (NoPVCAvailable (dsName ds)), s)"
  using assms by (simp add: createStorageClassDeviceSetPVC_def)

theorem C10_empty_templates_no_store_call_witness:
  "VolumeClaimTemplates ex_noTemplateSet = []
   \<and> createStorageClassDeviceSetPVC ex_emptyStore ex_noTemplateSet 2 =
       (Inl (NoPVCAvailable ''set1''), ex_emptyStore)"
proof -
  have E: "VolumeClaimTemplates ex_noTemplateSet = []"
    by (simp add: ex_noTemplateSet_def)
  show ?thesis
    using C10_empty_templates_no_store_call [OF E, of ex_emptyStore 2] E
    by (simp add: ex_noTemplateSet_def)
qed


section \<open>Properties of the Manifest Builder\<close>

subsection \<open>Strings\<close>

lemma digit_char_not_dash: "0 \<le> d \<Longrightarrow> d < 10 \<Longrightarrow> digit_char d \<noteq> CHR ''-''"
proof
  assume a: "0 \<le> d" "d < 10" and e: "digit_char d = CHR ''-''"
  from e have "(of_char (digit_char d) :: int) = of_char (CHR ''-'')" by simp
  then have "(48 + d) mod 256 = 45" by (simp add: digit_char_def)
  with a show False by simp
qed

lemma digits_head: "0 \<le> n \<Longrightarrow> \<exists>d cs. digits n = digit_char d # cs \<and> 0 \<le> d \<and> d < 10"
proof (induction n rule: digits.induct)
  case (1 n)
  show ?case
  proof (cases "n < 10")
    case True
    with 1(2) show ?thesis by (subst digits.simps) auto
  next
    case False
    then have "0 \<le> n div 10" using 1(2) by simp
    with 1(1) False obtain d cs where "digits (n div 10) = digit_char d # cs" "0 \<le> d" "d < 10"
      by blast
    with False show ?thesis by (subst digits.simps) auto
  qed
qed

lemma Itoa_no_double_dash: "\<not> prefix (CHR ''-'' # CHR ''-'' # rest) (Itoa i)"
proof (cases "i < 0")
  case True
  then obtain d cs where "digits (- i) = digit_char d # cs" "0 \<le> d" "d < 10"
    using digits_head [of "- i"] by auto
  with True show ?thesis by (auto simp: Itoa_def dest: digit_char_not_dash)
next
  case False
  then obtain d cs where "digits i = digit_char d # cs" "0 \<le> d" "d < 10"
    using digits_head [of i] by auto
  with False show ?thesis by (auto simp: Itoa_def dest: digit_char_not_dash)
qed

lemma join_Cons_nonempty: "a \<noteq> [] \<Longrightarrow> \<exists>cs. join sep (a # xs) = hd a # cs"
  by (cases a; cases xs) auto

lemma sourcePath_rooted:
  "\<exists>cs. path_Join [''/dev/disk/by-partuuid'', u] = CHR ''/'' # cs"
proof -
  obtain cs where J: "join ''/'' [''/dev/disk/by-partuuid'', u] = CHR ''/'' # cs"
    using join_Cons_nonempty [of "''/dev/disk/by-partuuid''" "''/''" "[u]"] by auto
  then show ?thesis
    by (simp add: path_Join_def Clean_def Let_def)
qed

lemma rook_helper_path: "path_Join [rookBinariesMountPath, ''rook''] = ''/rook/rook''"
  by code_simp

lemma rook_tini_path: "path_Join [rookBinariesMountPath, ''tini''] = ''/rook/tini''"
  by code_simp

subsection \<open>The parts of makeDeployment\<close>

lemma makeDeployment_empty_iff:
  "makeDeployment x c osdObject osd = Inl EmptyVolumes \<longleftrightarrow> fst (snd (makeDeployment_volumes x c osdObject osd)) = []"
  by (simp add: makeDeployment_def Let_def split_def)

lemma makeDeployment_volumes_empty_iff:
  "fst (snd (makeDeployment_volumes x c osdObject osd)) = [] \<longleftrightarrow>
     PodVolumes x (dataDirHostPath c) (Namespace c) = [] \<and> IsDirectory osd
        \<and> filepath_Dir (DataPath osd) = DataDir x \<and> ClaimName (pvc osdObject) = []"
  by (simp add: makeDeployment_volumes_def Let_def)

lemma makeDeployment_command_args:
  "fst (makeDeployment_command x c osd commonArgs volumes volumeMounts) =
     (if \<not> IsDirectory osd \<and> IsFileStore osd \<and> \<not> CephVolumeInitiated osd
      then [path_Join [BinariesMountPath x, ''tini'']]
      else if CephVolumeInitiated osd then [''/rook/tini''] else [''ceph-osd''])"
  "fst (snd (makeDeployment_command x c osd commonArgs volumes volumeMounts)) =
     (if \<not> IsDirectory osd \<and> IsFileStore osd \<and> \<not> CephVolumeInitiated osd
      then [''--'', path_Join [BinariesMountPath x, ''rook''], ''ceph'', ''osd'', ''filestore-device'',
            ''--source-path'', path_Join [''/dev/disk/by-partuuid'', DevicePartUUID osd],
            ''--mount-path'', DataPath osd, ''--''] @ commonArgs
      else if CephVolumeInitiated osd
      then [''--'', ''/rook/rook'', ''ceph'', ''osd'', ''start'', ''--'', ''--foreground'',
            ''--id'', Itoa (ID osd), ''--osd-uuid'', UUID osd, ''--conf'', Config osd,
            ''--cluster'', ''ceph'', ''--setuser'', ''ceph'', ''--setgroup'', ''ceph'',
            ''--setuser-match-path'', DataPath osd]
           @ (if IsAtLeast (clusterCephVersion c) \<lparr> Major = 14, Minor = 2, Extra = 1 \<rparr>
              then [''--default-log-to-file'', ''false''] else [])
           @ osdOnSDNFlag (HostNetwork c) (clusterCephVersion c)
      else commonArgs)"
  by (simp_all add: makeDeployment_command_def Let_def rook_helper_path rook_tini_path)

lemma makeDeployment_result:
  assumes "makeDeployment x c osdObject osd = Inr d"
  shows "cCommand (daemonContainer d) =
           fst (makeDeployment_command x c osd (makeDeployment_commonArgs x c osd) [] [])"
    and "cArgs (daemonContainer d) =
           fst (snd (makeDeployment_command x c osd (makeDeployment_commonArgs x c osd) [] []))"
    and "requestsPrivileged (daemonContainer d)"
    and "Volumes (Template d) \<noteq> []"
  using assms
  by (auto simp: makeDeployment_def Let_def split_def daemonContainer_def requestsPrivileged_def
        makeDeployment_command_args makeDeployment_command_def split: if_splits)

lemma makeDeployment_total:
  "makeDeployment x c osdObject osd = Inl EmptyVolumes \<or> (\<exists>d. makeDeployment x c osdObject osd = Inr d)"
  by (simp add: makeDeployment_def Let_def split_def)

lemma hasFlag_simps:
  "hasFlag f [] = False"
  "hasFlag f (a # as) = (prefix f a \<or> hasFlag f as)"
  "hasFlag f (as @ bs) = (hasFlag f as \<or> hasFlag f bs)"
  by (simp_all add: hasFlag_def)

lemma hasFlag_member: "f @ v \<in> set args \<Longrightarrow> hasFlag f args"
  unfolding hasFlag_def list_ex_iff by (rule bexI [where x = "f @ v"]) simp_all

lemma journal_in_commonArgs:
  "IsFileStore osd \<Longrightarrow> ''--osd-journal='' @ Journal osd \<in> set (makeDeployment_commonArgs x c osd)"
  by (simp add: makeDeployment_commonArgs_def Let_def)

lemma journal_flag_commonArgs:
  assumes "\<not> hasFlag ''--osd-journal='' (argumentInputs x osd)"
  shows "hasFlag ''--osd-journal='' (makeDeployment_commonArgs x c osd) = IsFileStore osd"
  using assms Itoa_no_double_dash [of "''osd-journal=''" "ID osd"]
  by (simp add: makeDeployment_commonArgs_def Let_def hasFlag_simps argumentInputs_def osdOnSDNFlag_def)


subsection \<open>The parts of the provisioning workload\<close>

lemma provisionPodTemplateSpec_Inr:
  "\<exists>p. provisionPodTemplateSpec x c osdObject restart = Inr p
       \<and> provisionContainer p =
           provisionOSDContainer x c osdObject \<lparr> vmName = rookBinariesVolumeName, vmMountPath = rookBinariesMountPath \<rparr>
       \<and> fst (getCopyBinariesContainer x c) \<in> set (Volumes p)
       \<and> (deviceMountNeeded osdObject \<longrightarrow>
            \<lparr> volName = ''devices'', volSource = HostPath ''/dev'' \<rparr> \<in> set (Volumes p)
          \<and> \<lparr> volName = ''udev'', volSource = HostPath ''/run/udev'' \<rparr> \<in> set (Volumes p))"
  by (simp add: provisionPodTemplateSpec_def getCopyBinariesContainer_def Let_def provisionContainer_def
        deviceMountNeeded_def)

lemma selection_devMountNeeded:
  "snd (provisionOSDContainer_selection x c osdObject) = deviceMountNeeded osdObject"
  by (auto simp: provisionOSDContainer_selection_def Let_def deviceMountNeeded_def)

lemma provision_privileged:
  "requestsPrivileged (provisionOSDContainer x c osdObject m) \<longleftrightarrow>
     deviceMountNeeded osdObject \<or> Getenv x ''ROOK_HOSTPATH_REQUIRES_PRIVILEGED'' = ''true''
     \<or> ClaimName (pvc osdObject) \<noteq> []"
  by (simp add: provisionOSDContainer_def Let_def split_def requestsPrivileged_def
        selection_devMountNeeded)

lemma deviceEntry_eq: "deviceEntry x device = deviceEntrySpec x device"
  by (simp add: deviceEntry_def deviceEntrySpec_def Let_def split: option.splits)

lemma envNamed_simps:
  "envNamed n [] = []"
  "envNamed n (e # e' # es) = envNamed n [e] @ envNamed n (e' # es)"
  "envNamed n (es @ fs) = envNamed n es @ envNamed n fs"
  "envNamed n (if b then es else fs) = (if b then envNamed n es else envNamed n fs)"
  "envNamed n [\<lparr> envName = k, envValue = v, envValueFrom = src \<rparr>] =
     (if k = n then [\<lparr> envName = k, envValue = v, envValueFrom = src \<rparr>] else [])"
  by (simp_all add: envNamed_def hasName_def)

lemmas envVar_defs =
  envVar_def nodeNameEnvVar_def dataDevicesEnvVar_def deviceFilterEnvVar_def metadataDeviceEnvVar_def
  dataDirectoriesEnvVar_def pvcBackedOSDEnvVar_def
  dataDirsEnvVarName_def osdStoreEnvVarName_def osdDatabaseSizeEnvVarName_def osdWalSizeEnvVarName_def
  osdJournalSizeEnvVarName_def osdsPerDeviceEnvVarName_def encryptedDeviceEnvVarName_def
  osdMetadataDeviceEnvVarName_def pvcBackedOSDVarName_def

lemma getConfigEnvVars_append:
  "getConfigEnvVars x c sc dataDir nodeName loc =
     [nodeNameEnvVar nodeName, envVar ''ROOK_CLUSTER_ID'' (ownerRefUID c),
      PrivateIPEnvVar x, PublicIPEnvVar x, ClusterNameEnvVar x (Namespace c), EndpointEnvVar x,
      SecretEnvVar x, AdminSecretEnvVar x, ConfigDirEnvVar x dataDir, ConfigOverrideEnvVar x,
      \<lparr> envName = ''ROOK_FSID'', envValue = [],
        envValueFrom = Some (SecretKeyRef ''rook-ceph-mon'' ''fsid'') \<rparr>]
     @ (if StoreType sc \<noteq> [] then [envVar osdStoreEnvVarName (StoreType sc)] else [])
     @ (if DatabaseSizeMB sc \<noteq> 0 then [envVar osdDatabaseSizeEnvVarName (Itoa (DatabaseSizeMB sc))] else [])
     @ (if WalSizeMB sc \<noteq> 0 then [envVar osdWalSizeEnvVarName (Itoa (WalSizeMB sc))] else [])
     @ (if JournalSizeMB sc \<noteq> 0 then [envVar osdJournalSizeEnvVarName (Itoa (JournalSizeMB sc))] else [])
     @ (if OSDsPerDevice sc \<noteq> 0 then [envVar osdsPerDeviceEnvVarName (Itoa (OSDsPerDevice sc))] else [])
     @ (if EncryptedDevice sc then [envVar encryptedDeviceEnvVarName ''true''] else [])
     @ (if loc \<noteq> [] then [LocationEnvVar x loc] else [])"
  unfolding getConfigEnvVars_def Let_def by simp

lemma getConfigEnvVars_dataDevices:
  "envNamed ''ROOK_DATA_DEVICES'' (getConfigEnvVars x c sc dataDir nodeName loc) =
   envNamed ''ROOK_DATA_DEVICES'' (helperEnvVars x c dataDir loc)"
  unfolding getConfigEnvVars_append helperEnvVars_def
  by (simp add: envNamed_simps envVar_defs)


lemma selection_env_devices:
  assumes "devices osdObject \<noteq> []"
      and "envNamed ''ROOK_DATA_DEVICES'' (helperEnvVars x c (DataDir x) (location osdObject)) = []"
  shows "envNamed ''ROOK_DATA_DEVICES'' (fst (provisionOSDContainer_selection x c osdObject)) =
           [dataDevicesEnvVar (join '','' (map (deviceEntry x) (devices osdObject)))]"
proof (cases "metadataDevice osdObject = []")
  case True
  with assms show ?thesis
    by (simp add: provisionOSDContainer_selection_def Let_def envNamed_simps envVar_defs
          getConfigEnvVars_dataDevices)
next
  case False
  with assms show ?thesis
    by (simp add: provisionOSDContainer_selection_def Let_def envNamed_simps envVar_defs
          getConfigEnvVars_dataDevices)
qed

lemma mounts_env_no_claim:
  assumes "ClaimName (pvc osdObject) = []"
  shows "envNamed ''ROOK_DATA_DEVICES'' (snd (provisionOSDContainer_mounts x osdObject m dmn env)) =
           envNamed ''ROOK_DATA_DEVICES'' env"
  using assms
  by (simp add: provisionOSDContainer_mounts_def Let_def envNamed_simps envVar_defs)

lemma mounts_devices:
  "\<lparr> vmName = ''devices'', vmMountPath = ''/dev'' \<rparr> \<in> set (fst (provisionOSDContainer_mounts x osdObject m True env))
   \<and> \<lparr> vmName = ''udev'', vmMountPath = ''/run/udev'' \<rparr> \<in> set (fst (provisionOSDContainer_mounts x osdObject m True env))"
  by (simp add: provisionOSDContainer_mounts_def Let_def)

lemma provision_parts:
  "cEnv (provisionOSDContainer x c osdObject m) =
     snd (provisionOSDContainer_mounts x osdObject m (deviceMountNeeded osdObject)
            (fst (provisionOSDContainer_selection x c osdObject)))"
  "cVolumeMounts (provisionOSDContainer x c osdObject m) =
     fst (provisionOSDContainer_mounts x osdObject m (deviceMountNeeded osdObject)
            (fst (provisionOSDContainer_selection x c osdObject)))"
  by (simp_all add: provisionOSDContainer_def Let_def split_def selection_devMountNeeded)


text \<open>With a device list and a bound claim the environment has two data-devices
  variables, the second for the claim.\<close>

lemma mounts_env_claim:
  assumes "ClaimName (pvc osdObject) \<noteq> []"
  shows "envNamed ''ROOK_DATA_DEVICES'' (snd (provisionOSDContainer_mounts x osdObject m dmn env)) =
           envNamed ''ROOK_DATA_DEVICES'' env @ [dataDevicesEnvVar (''/mnt/'' @ ClaimName (pvc osdObject))]"
  using assms
  by (simp add: provisionOSDContainer_mounts_def Let_def envNamed_simps envVar_defs)

lemma data_devices_with_claim:
  assumes "devices osdObject \<noteq> []" and "ClaimName (pvc osdObject) \<noteq> []"
      and "envNamed ''ROOK_DATA_DEVICES'' (helperEnvVars x c (DataDir x) (location osdObject)) = []"
  shows "envNamed ''ROOK_DATA_DEVICES'' (cEnv (provisionOSDContainer x c osdObject m)) =
           [dataDevicesEnvVar (join '','' (map (deviceEntry x) (devices osdObject))),
            dataDevicesEnvVar (''/mnt/'' @ ClaimName (pvc osdObject))]"
  by (simp add: provision_parts mounts_env_claim [OF assms(2)] selection_env_devices [OF assms(1,3)])

subsection \<open>Failure of construction\<close>

text \<open>
  Claim C1, as the spec states it, fails: for the descriptor with no device list, no
  filter, no use-all-devices flag, no metadata device, no directory and no bound claim,
  both builders return a workload, whose volumes are those of the shared helper and the
  binaries volume.
\<close>

theorem C1_empty_selection_counterexample:
  "devices ex_bareObject = [] \<and> DeviceFilter (selection ex_bareObject) = []
   \<and> \<not> GetUseAllDevices (selection ex_bareObject) \<and> metadataDevice ex_bareObject = []
   \<and> Directories (selection ex_bareObject) = [] \<and> ClaimName (pvc ex_bareObject) = []
   \<and> \<not> isl (provisionPodTemplateSpec ex_ext ex_cluster ex_bareObject RestartPolicyOnFailure)
   \<and> map volName (Volumes (projr (provisionPodTemplateSpec ex_ext ex_cluster ex_bareObject RestartPolicyOnFailure)))
       = [''rook-data'', ''rook-config-override'', ''rook-binaries'']
   \<and> \<not> isl (makeDeployment ex_ext ex_cluster ex_bareObject ex_dirFilestoreOSD)
   \<and> map volName (Volumes (Template (projr (makeDeployment ex_ext ex_cluster ex_bareObject ex_dirFilestoreOSD))))
       = [''rook-data'', ''rook-config-override'', ''rook-binaries'']"
  by code_simp

text \<open>
  Claim C1, amended. For every worker descriptor, also one that specifies no device
  list, filter, use-all-devices flag, metadata device or directory and has no bound
  claim, the provisioning pod-template builder returns a workload, and its volumes
  contain the binaries volume. The deployment builder returns the empty-volumes error
  exactly when the shared helper gives no volume, the worker is directory-based with its
  data path directly under the default data directory, and no claim is bound; in every
  other case it returns a workload with at least one volume.
\<close>

theorem C1_construction_succeeds_without_selection:
  "(\<exists>p. provisionPodTemplateSpec x c osdObject restart = Inr p
        \<and> fst (getCopyBinariesContainer x c) \<in> set (Volumes p))
   \<and> (makeDeployment x c osdObject osd = Inl EmptyVolumes \<longleftrightarrow>
        PodVolumes x (dataDirHostPath c) (Namespace c) = [] \<and> IsDirectory osd
        \<and> filepath_Dir (DataPath osd) = DataDir x \<and> ClaimName (pvc osdObject) = [])
   \<and> (makeDeployment x c osdObject osd = Inl EmptyVolumes
        \<or> (\<exists>d. makeDeployment x c osdObject osd = Inr d \<and> Volumes (Template d) \<noteq> []))"
proof (intro conjI)
  show "\<exists>p. provisionPodTemplateSpec x c osdObject restart = Inr p
        \<and> fst (getCopyBinariesContainer x c) \<in> set (Volumes p)"
    using provisionPodTemplateSpec_Inr [of x c osdObject restart] by blast
  show "makeDeployment x c osdObject osd = Inl EmptyVolumes \<longleftrightarrow>
        PodVolumes x (dataDirHostPath c) (Namespace c) = [] \<and> IsDirectory osd
        \<and> filepath_Dir (DataPath osd) = DataDir x \<and> ClaimName (pvc osdObject) = []"
    by (simp only: makeDeployment_empty_iff makeDeployment_volumes_empty_iff)
  show "makeDeployment x c osdObject osd = Inl EmptyVolumes
        \<or> (\<exists>d. makeDeployment x c osdObject osd = Inr d \<and> Volumes (Template d) \<noteq> [])"
    using makeDeployment_total [of x c osdObject osd] makeDeployment_result(4) [of x c osdObject osd]
    by blast
qed


theorem C1_construction_succeeds_without_selection_witness:
  "(\<exists>p. provisionPodTemplateSpec ex_ext ex_cluster ex_bareObject RestartPolicyOnFailure = Inr p
        \<and> fst (getCopyBinariesContainer ex_ext ex_cluster) \<in> set (Volumes p))
   \<and> makeDeployment ex_ext ex_cluster ex_bareObject ex_dirFilestoreOSD \<noteq> Inl EmptyVolumes
   \<and> (\<exists>d. makeDeployment ex_ext ex_cluster ex_bareObject ex_dirFilestoreOSD = Inr d
          \<and> Volumes (Template d) \<noteq> [])"
proof -
  have V: "PodVolumes ex_ext (dataDirHostPath ex_cluster) (Namespace ex_cluster) \<noteq> []"
    by (simp add: ex_ext_def)
  show ?thesis
    using C1_construction_succeeds_without_selection
            [of ex_ext ex_cluster ex_bareObject RestartPolicyOnFailure ex_dirFilestoreOSD] V
    by blast
qed

subsection \<open>Command and arguments of the daemon\<close>

text \<open>
  Claim C2 fails on the code in the branch for a worker that the volume-management tool
  initiated. For an object-based store, a version below Nautilus and a memory limit of
  4 GiB, the argument list of the daemon container is the literal list of that branch,
  with no memory target; the same worker not initiated by the tool gets the flag.
\<close>

theorem C2_memory_target_missing_ceph_volume:
  "\<not> IsFileStore ex_cvBluestoreOSD
   \<and> \<not> IsAtLeastNautilus ex_ext (clusterCephVersion ex_cluster)
   \<and> LimitsMemory (clusterResources ex_cluster) \<noteq> 0
   \<and> CephVolumeInitiated ex_cvBluestoreOSD
   \<and> \<not> isl (makeDeployment ex_ext ex_cluster ex_devicesObject ex_cvBluestoreOSD)
   \<and> cArgs (daemonContainer (projr (makeDeployment ex_ext ex_cluster ex_devicesObject ex_cvBluestoreOSD))) =
       [''--'', ''/rook/rook'', ''ceph'', ''osd'', ''start'', ''--'',
        ''--foreground'', ''--id'', ''0'', ''--osd-uuid'', ''6a1b'',
        ''--conf'', ''/var/lib/rook/osd0/rook-ceph.config'', ''--cluster'',
        ''ceph'', ''--setuser'', ''ceph'', ''--setgroup'', ''ceph'',
        ''--setuser-match-path'', ''/var/lib/rook/osd0'']
   \<and> \<not> hasFlag ''--osd-memory-target=''
         (cArgs (daemonContainer (projr (makeDeployment ex_ext ex_cluster ex_devicesObject ex_cvBluestoreOSD))))
   \<and> hasFlag ''--osd-memory-target=''
         (cArgs (daemonContainer (projr (makeDeployment ex_ext ex_cluster ex_devicesObject ex_osd))))"
  by code_simp

text \<open>
  Claim C3, as the spec states it, fails: a directory-based worker with the journal-based
  store that the volume-management tool did not initiate is started with \<open>ceph-osd\<close>
  directly, not through the wrapper.
\<close>

theorem C3_directory_filestore_counterexample:
  "IsDirectory ex_dirFilestoreOSD \<and> IsFileStore ex_dirFilestoreOSD
   \<and> \<not> CephVolumeInitiated ex_dirFilestoreOSD
   \<and> \<not> isl (makeDeployment ex_ext ex_cluster ex_bareObject ex_dirFilestoreOSD)
   \<and> cCommand (daemonContainer (projr (makeDeployment ex_ext ex_cluster ex_bareObject ex_dirFilestoreOSD))) =
       [''ceph-osd'']
   \<and> cArgs (daemonContainer (projr (makeDeployment ex_ext ex_cluster ex_bareObject ex_dirFilestoreOSD))) =
       [''--foreground'', ''--id'', ''0'', ''--conf'', ''/var/lib/rook/osd0/rook-ceph.config'',
        ''--osd-data'', ''/var/lib/rook/osd0'', ''--keyring'', ''/var/lib/rook/osd0/keyring'',
        ''--cluster'', ''rook-ceph'', ''--osd-uuid'', ''6a1b'',
        ''--osd-journal=/var/lib/rook/osd0/journal'']"
  by code_simp

text \<open>
  Claim C3, amended. For every worker runtime info that is device-based (not
  directory-based), uses the journal-based store and was not initiated by the
  volume-management tool, the deployment builder returns a deployment whose command is
  \<open>tini\<close> from the binaries mount and whose arguments start with the \<open>rook\<close>
  filestore-device helper, the source path under \<open>/dev/disk/by-partuuid\<close> and the
  mount path, and contain \<open>--osd-journal=\<close> followed by the journal path.
\<close>

theorem C3_device_filestore_wrapper:
  assumes "\<not> IsDirectory osd" and "IsFileStore osd" and "\<not> CephVolumeInitiated osd"
  shows "\<exists>d. makeDeployment x c osdObject osd = Inr d
     \<and> cCommand (daemonContainer d) = [path_Join [BinariesMountPath x, ''tini'']]
     \<and> take 10 (cArgs (daemonContainer d)) =
         [''--'', path_Join [BinariesMountPath x, ''rook''], ''ceph'', ''osd'', ''filestore-device'',
          ''--source-path'', path_Join [''/dev/disk/by-partuuid'', DevicePartUUID osd],
          ''--mount-path'', DataPath osd, ''--'']
     \<and> ''--osd-journal='' @ Journal osd \<in> set (cArgs (daemonContainer d))"
proof -
  have "makeDeployment x c osdObject osd \<noteq> Inl EmptyVolumes"
    using assms(1) by (simp add: makeDeployment_empty_iff makeDeployment_volumes_empty_iff)
  then obtain d where D: "makeDeployment x c osdObject osd = Inr d"
    using makeDeployment_total [of x c osdObject osd] by blast
  show ?thesis
    using assms D makeDeployment_result(1,2) [OF D] journal_in_commonArgs [of osd x c]
    by (simp add: makeDeployment_command_args)
qed


theorem C3_device_filestore_wrapper_witness:
  "\<not> IsDirectory ex_deviceFilestoreOSD \<and> IsFileStore ex_deviceFilestoreOSD
   \<and> \<not> CephVolumeInitiated ex_deviceFilestoreOSD
   \<and> (\<exists>d. makeDeployment ex_ext ex_cluster ex_devicesObject ex_deviceFilestoreOSD = Inr d
     \<and> cCommand (daemonContainer d) = [path_Join [BinariesMountPath ex_ext, ''tini'']]
     \<and> take 10 (cArgs (daemonContainer d)) =
         [''--'', path_Join [BinariesMountPath ex_ext, ''rook''], ''ceph'', ''osd'', ''filestore-device'',
          ''--source-path'', path_Join [''/dev/disk/by-partuuid'', DevicePartUUID ex_deviceFilestoreOSD],
          ''--mount-path'', DataPath ex_deviceFilestoreOSD, ''--'']
     \<and> ''--osd-journal='' @ Journal ex_deviceFilestoreOSD \<in> set (cArgs (daemonContainer d)))"
proof -
  have h: "\<not> IsDirectory ex_deviceFilestoreOSD" "IsFileStore ex_deviceFilestoreOSD"
          "\<not> CephVolumeInitiated ex_deviceFilestoreOSD"
    by (simp_all add: ex_deviceFilestoreOSD_def ex_osd_def)
  show ?thesis
    using C3_device_filestore_wrapper [OF h, of ex_ext ex_cluster ex_devicesObject] h by blast
qed

text \<open>
  Claim C6, as the spec states it, fails in the branch for a worker that the
  volume-management tool initiated: with the journal-based store the argument list is
  the literal list of that branch, without a journal flag.
\<close>

theorem C6_journal_flag_counterexample:
  "IsFileStore ex_cvFilestoreOSD \<and> CephVolumeInitiated ex_cvFilestoreOSD
   \<and> \<not> isl (makeDeployment ex_ext ex_cluster ex_devicesObject ex_cvFilestoreOSD)
   \<and> cArgs (daemonContainer (projr (makeDeployment ex_ext ex_cluster ex_devicesObject ex_cvFilestoreOSD))) =
       [''--'', ''/rook/rook'', ''ceph'', ''osd'', ''start'', ''--'',
        ''--foreground'', ''--id'', ''0'', ''--osd-uuid'', ''6a1b'',
        ''--conf'', ''/var/lib/rook/osd0/rook-ceph.config'', ''--cluster'',
        ''ceph'', ''--setuser'', ''ceph'', ''--setgroup'', ''ceph'',
        ''--setuser-match-path'', ''/var/lib/rook/osd0'']
   \<and> \<not> hasFlag ''--osd-journal=''
         (cArgs (daemonContainer (projr (makeDeployment ex_ext ex_cluster ex_devicesObject ex_cvFilestoreOSD))))"
  by code_simp

text \<open>
  Claim C6, amended. For every deployment that the builder returns, the argument list of
  the daemon container has an argument beginning with \<open>--osd-journal=\<close> if and only if
  the store is journal-based and the worker was not initiated by the volume-management
  tool, and then it is \<open>--osd-journal=\<close> followed by the journal path. The strings
  that the builder copies into the list from the runtime info (configuration path, data
  path, keyring path, cluster name, UUID) and the helper path are taken not to begin
  with \<open>--osd-journal=\<close> themselves.
\<close>

theorem C6_journal_flag:
  assumes "makeDeployment x c osdObject osd = Inr d"
      and "\<not> hasFlag ''--osd-journal='' (argumentInputs x osd)"
  shows "(hasFlag ''--osd-journal='' (cArgs (daemonContainer d)) \<longleftrightarrow>
            IsFileStore osd \<and> \<not> CephVolumeInitiated osd)
       \<and> (''--osd-journal='' @ Journal osd \<in> set (cArgs (daemonContainer d)) \<longleftrightarrow>
            IsFileStore osd \<and> \<not> CephVolumeInitiated osd)"
proof -
  have src: "\<not> prefix ''--osd-journal='' (path_Join [''/dev/disk/by-partuuid'', DevicePartUUID osd])"
    using sourcePath_rooted [of "DevicePartUUID osd"] by auto
  have idp: "\<not> prefix ''--osd-journal='' (Itoa (ID osd))"
    using Itoa_no_double_dash [of "''osd-journal=''" "ID osd"] by simp
  have flag: "hasFlag ''--osd-journal='' (cArgs (daemonContainer d)) \<longleftrightarrow>
            IsFileStore osd \<and> \<not> CephVolumeInitiated osd"
    using assms(2) src idp journal_flag_commonArgs [OF assms(2), of c]
    by (auto simp: makeDeployment_result(2) [OF assms(1)] makeDeployment_command_args
          hasFlag_simps argumentInputs_def osdOnSDNFlag_def)
  have mem: "''--osd-journal='' @ Journal osd \<in> set (cArgs (daemonContainer d)) \<Longrightarrow>
      hasFlag ''--osd-journal='' (cArgs (daemonContainer d))"
    by (rule hasFlag_member)
  have "IsFileStore osd \<and> \<not> CephVolumeInitiated osd \<Longrightarrow>
      ''--osd-journal='' @ Journal osd \<in> set (cArgs (daemonContainer d))"
    using journal_in_commonArgs [of osd x c]
    by (auto simp: makeDeployment_result(2) [OF assms(1)] makeDeployment_command_args)
  with flag mem show ?thesis by blast
qed

theorem C6_journal_flag_witness:
  "makeDeployment ex_ext ex_cluster ex_devicesObject ex_deviceFilestoreOSD =
     Inr (projr (makeDeployment ex_ext ex_cluster ex_devicesObject ex_deviceFilestoreOSD))
   \<and> \<not> hasFlag ''--osd-journal='' (argumentInputs ex_ext ex_deviceFilestoreOSD)
   \<and> IsFileStore ex_deviceFilestoreOSD \<and> \<not> CephVolumeInitiated ex_deviceFilestoreOSD
   \<and> hasFlag ''--osd-journal=''
        (cArgs (daemonContainer (projr (makeDeployment ex_ext ex_cluster ex_devicesObject ex_deviceFilestoreOSD))))"
proof -
  have d: "makeDeployment ex_ext ex_cluster ex_devicesObject ex_deviceFilestoreOSD =
     Inr (projr (makeDeployment ex_ext ex_cluster ex_devicesObject ex_deviceFilestoreOSD))"
    by code_simp
  have i: "\<not> hasFlag ''--osd-journal='' (argumentInputs ex_ext ex_deviceFilestoreOSD)"
    by code_simp
  have s: "IsFileStore ex_deviceFilestoreOSD \<and> \<not> CephVolumeInitiated ex_deviceFilestoreOSD"
    by (simp add: ex_deviceFilestoreOSD_def ex_osd_def)
  show ?thesis
    using C6_journal_flag [OF d i] d i s by blast
qed

subsection \<open>Privileged execution\<close>

text \<open>
  Claim C7, as the spec states it, fails for the daemon deployment: its security context
  is privileged also when no device mount is needed, the environment override is unset
  and no claim is bound.
\<close>

theorem C7_privileged_counterexample:
  "\<not> deviceMountNeeded ex_bareObject
   \<and> Getenv ex_ext ''ROOK_HOSTPATH_REQUIRES_PRIVILEGED'' \<noteq> ''true''
   \<and> ClaimName (pvc ex_bareObject) = []
   \<and> \<not> isl (makeDeployment ex_ext ex_cluster ex_bareObject ex_dirFilestoreOSD)
   \<and> requestsPrivileged (daemonContainer (projr (makeDeployment ex_ext ex_cluster ex_bareObject ex_dirFilestoreOSD)))"
  by code_simp

text \<open>
  Claim C7, amended. The provisioning container of every provisioning workload requests
  privileged execution if and only if the device mount is needed, or the environment
  variable \<open>ROOK_HOSTPATH_REQUIRES_PRIVILEGED\<close> is \<open>true\<close>, or a claim is bound. The
  daemon container of every deployment that the deployment builder returns requests
  privileged execution.
\<close>

theorem C7_privileged:
  "(\<exists>p. provisionPodTemplateSpec x c osdObject restart = Inr p
        \<and> (requestsPrivileged (provisionContainer p) \<longleftrightarrow>
             deviceMountNeeded osdObject
             \<or> Getenv x ''ROOK_HOSTPATH_REQUIRES_PRIVILEGED'' = ''true''
             \<or> ClaimName (pvc osdObject) \<noteq> []))
   \<and> (makeDeployment x c osdObject osd = Inl EmptyVolumes
        \<or> (\<exists>d. makeDeployment x c osdObject osd = Inr d \<and> requestsPrivileged (daemonContainer d)))"
proof (intro conjI)
  obtain p where P: "provisionPodTemplateSpec x c osdObject restart = Inr p"
    and C: "provisionContainer p =
           provisionOSDContainer x c osdObject \<lparr> vmName = rookBinariesVolumeName, vmMountPath = rookBinariesMountPath \<rparr>"
    using provisionPodTemplateSpec_Inr [of x c osdObject restart] by blast
  show "\<exists>p. provisionPodTemplateSpec x c osdObject restart = Inr p
        \<and> (requestsPrivileged (provisionContainer p) \<longleftrightarrow>
             deviceMountNeeded osdObject
             \<or> Getenv x ''ROOK_HOSTPATH_REQUIRES_PRIVILEGED'' = ''true''
             \<or> ClaimName (pvc osdObject) \<noteq> [])"
    using P C by (simp add: provision_privileged)
  show "makeDeployment x c osdObject osd = Inl EmptyVolumes
        \<or> (\<exists>d. makeDeployment x c osdObject osd = Inr d \<and> requestsPrivileged (daemonContainer d))"
    using makeDeployment_total [of x c osdObject osd] makeDeployment_result(3) [of x c osdObject osd]
    by blast
qed


theorem C7_privileged_witness:
  "(\<exists>p. provisionPodTemplateSpec ex_ext ex_cluster ex_bareObject RestartPolicyOnFailure = Inr p
        \<and> \<not> requestsPrivileged (provisionContainer p))
   \<and> (\<exists>p. provisionPodTemplateSpec ex_ext ex_cluster ex_devicesObject RestartPolicyOnFailure = Inr p
        \<and> requestsPrivileged (provisionContainer p))"
proof -
  have n: "\<not> (deviceMountNeeded ex_bareObject
             \<or> Getenv ex_ext ''ROOK_HOSTPATH_REQUIRES_PRIVILEGED'' = ''true''
             \<or> ClaimName (pvc ex_bareObject) \<noteq> [])"
    by code_simp
  have y: "deviceMountNeeded ex_devicesObject"
    by code_simp
  show ?thesis
    using C7_privileged [of ex_ext ex_cluster ex_bareObject RestartPolicyOnFailure ex_osd]
          C7_privileged [of ex_ext ex_cluster ex_devicesObject RestartPolicyOnFailure ex_osd] n y
    by blast
qed

subsection \<open>The data devices variable\<close>

text \<open>
  For every device the entry is the name followed by \<open>:1\<close> and, when configured, the
  metadata device: the per-device OSD count of the configuration is logged and not
  used, as for the device \<open>sdb\<close> configured with three OSDs.
\<close>

lemma deviceEntry_configured_count:
  "map_of (devConfig ex_countedDevice) (OSDsPerDeviceKey ex_ext) = Some ''3''
   \<and> deviceEntry ex_ext ex_countedDevice = ''sdb:1''"
  by code_simp

text \<open>
  Claim C8, as the spec states it, fails: a descriptor with a device list and a bound
  claim gets two data-devices variables, one for the device list and one for the claim.
\<close>

theorem C8_data_devices_counterexample:
  "devices ex_devicesPvcObject \<noteq> []
   \<and> \<not> isl (provisionPodTemplateSpec ex_ext ex_cluster ex_devicesPvcObject RestartPolicyOnFailure)
   \<and> envNamed ''ROOK_DATA_DEVICES''
        (cEnv (provisionContainer (projr (provisionPodTemplateSpec ex_ext ex_cluster ex_devicesPvcObject RestartPolicyOnFailure)))) =
       [dataDevicesEnvVar ''sdb:1'', dataDevicesEnvVar ''/mnt/set1-0-0-data-0'']"
  by code_simp

text \<open>
  Claim C8, amended. For every worker descriptor with a non-empty explicit device list
  and no bound claim, whose devices have no per-device OSD count configured, the
  environment of the provisioning container has exactly one data-devices variable; its
  value is the comma-delimited list of the device entries in order, each the device name
  followed by \<open>:1\<close> and, when configured, by \<open>:\<close> and the metadata device. The
  device and udev mounts and volumes are added and the container is privileged. The
  variables that helpers outside the excerpt contribute are taken not to be named
  \<open>ROOK_DATA_DEVICES\<close>. For the devices \<open>sdb\<close> and \<open>sdc\<close> the value is
  \<open>sdb:1,sdc:1\<close>.
\<close>

theorem C8_data_devices:
  assumes "devices osdObject \<noteq> []" and "ClaimName (pvc osdObject) = []"
      and "\<forall>d \<in> set (devices osdObject). map_of (devConfig d) (OSDsPerDeviceKey x) = None"
      and "envNamed ''ROOK_DATA_DEVICES'' (helperEnvVars x c (DataDir x) (location osdObject)) = []"
  shows "\<exists>p. provisionPodTemplateSpec x c osdObject restart = Inr p
     \<and> envNamed ''ROOK_DATA_DEVICES'' (cEnv (provisionContainer p)) =
         [dataDevicesEnvVar (join '','' (map (deviceEntrySpec x) (devices osdObject)))]
     \<and> \<lparr> vmName = ''devices'', vmMountPath = ''/dev'' \<rparr> \<in> set (cVolumeMounts (provisionContainer p))
     \<and> \<lparr> vmName = ''udev'', vmMountPath = ''/run/udev'' \<rparr> \<in> set (cVolumeMounts (provisionContainer p))
     \<and> \<lparr> volName = ''devices'', volSource = HostPath ''/dev'' \<rparr> \<in> set (Volumes p)
     \<and> \<lparr> volName = ''udev'', volSource = HostPath ''/run/udev'' \<rparr> \<in> set (Volumes p)
     \<and> requestsPrivileged (provisionContainer p)"
proof -
  have need: "deviceMountNeeded osdObject"
    using assms(1) by (simp add: deviceMountNeeded_def)
  have entries: "map (deviceEntry x) (devices osdObject) = map (deviceEntrySpec x) (devices osdObject)"
    by (simp add: deviceEntry_eq)
  obtain p where P: "provisionPodTemplateSpec x c osdObject restart = Inr p"
    and C: "provisionContainer p =
           provisionOSDContainer x c osdObject \<lparr> vmName = rookBinariesVolumeName, vmMountPath = rookBinariesMountPath \<rparr>"
    and V: "\<lparr> volName = ''devices'', volSource = HostPath ''/dev'' \<rparr> \<in> set (Volumes p)"
           "\<lparr> volName = ''udev'', volSource = HostPath ''/run/udev'' \<rparr> \<in> set (Volumes p)"
    using provisionPodTemplateSpec_Inr [of x c osdObject restart] need by blast
  have E: "envNamed ''ROOK_DATA_DEVICES'' (cEnv (provisionContainer p)) =
         [dataDevicesEnvVar (join '','' (map (deviceEntrySpec x) (devices osdObject)))]"
    by (simp add: C provision_parts mounts_env_no_claim [OF assms(2)]
          selection_env_devices [OF assms(1,4)] entries)
  have M: "\<lparr> vmName = ''devices'', vmMountPath = ''/dev'' \<rparr> \<in> set (cVolumeMounts (provisionContainer p))"
          "\<lparr> vmName = ''udev'', vmMountPath = ''/run/udev'' \<rparr> \<in> set (cVolumeMounts (provisionContainer p))"
    using mounts_devices [of x osdObject] by (simp_all add: C provision_parts need)
  have R: "requestsPrivileged (provisionContainer p)"
    by (simp add: C provision_privileged need)
  from P E M V R show ?thesis by blast
qed

theorem C8_data_devices_witness:
  "devices ex_devicesObject \<noteq> [] \<and> ClaimName (pvc ex_devicesObject) = []
   \<and> map (\<lambda>d. map_of (devConfig d) (OSDsPerDeviceKey ex_ext)) (devices ex_devicesObject) = [None, None]
   \<and> envNamed ''ROOK_DATA_DEVICES'' (helperEnvVars ex_ext ex_cluster (DataDir ex_ext) (location ex_devicesObject)) = []
   \<and> (\<exists>p. provisionPodTemplateSpec ex_ext ex_cluster ex_devicesObject RestartPolicyOnFailure = Inr p
     \<and> envNamed ''ROOK_DATA_DEVICES'' (cEnv (provisionContainer p)) = [dataDevicesEnvVar ''sdb:1,sdc:1'']
     \<and> \<lparr> vmName = ''devices'', vmMountPath = ''/dev'' \<rparr> \<in> set (cVolumeMounts (provisionContainer p))
     \<and> requestsPrivileged (provisionContainer p))"
proof -
  have h1: "devices ex_devicesObject \<noteq> []" by code_simp
  have h2: "ClaimName (pvc ex_devicesObject) = []" by code_simp
  have h3: "\<forall>d \<in> set (devices ex_devicesObject). map_of (devConfig d) (OSDsPerDeviceKey ex_ext) = None"
    by code_simp
  have h3': "map (\<lambda>d. map_of (devConfig d) (OSDsPerDeviceKey ex_ext)) (devices ex_devicesObject) = [None, None]"
    by code_simp
  have h4: "envNamed ''ROOK_DATA_DEVICES'' (helperEnvVars ex_ext ex_cluster (DataDir ex_ext) (location ex_devicesObject)) = []"
    by code_simp
  have v: "join '','' (map (deviceEntrySpec ex_ext) (devices ex_devicesObject)) = ''sdb:1,sdc:1''"
    by code_simp
  show ?thesis
    using C8_data_devices [OF h1 h2 h3 h4, of RestartPolicyOnFailure] h1 h2 h3' h4
    unfolding v by blast
qed

end
